theory Spec2Isabelle
  imports Complex_Main "HOL-Library.Word"
begin

section \<open>JavaScript values\<close>

text \<open>
  The program is the React component \<open>App\<close> of \<open>src/index.tsx\<close>. Its handlers are
  embedded as functions on a record of the component's state. A handler runs to
  its first \<open>await\<close> in one piece; what it does afterwards is a second function,
  applied to the state at the time the promise settles, with the variables the
  handler had closed over as arguments. The state updates that a handler queues
  are applied in the order of the calls, also when an exception ends the handler
  before the later calls. What the component renders is not embedded, only the
  conditions under which a control is rendered and enabled.

  A JavaScript string is a sequence of UTF-16 code units. The embedding \<open>js\<close> writes
  the ASCII literals of the source.
\<close>

type_synonym jsstring = "16 word list"

definition js :: "string \<Rightarrow> jsstring" where
  "js s = map of_char s"

text \<open>
  \<open>String.prototype.trim\<close> removes the code units of the ECMAScript productions
  WhiteSpace and LineTerminator from both ends.
\<close>

definition js_whitespace :: "16 word \<Rightarrow> bool" where
  "js_whitespace c \<longleftrightarrow>
     c \<in> {0x0009, 0x000A, 0x000B, 0x000C, 0x000D, 0x0020, 0x00A0, 0x1680,
          0x2000, 0x2001, 0x2002, 0x2003, 0x2004, 0x2005, 0x2006, 0x2007,
          0x2008, 0x2009, 0x200A, 0x2028, 0x2029, 0x202F, 0x205F, 0x3000, 0xFEFF}"

definition trim :: "jsstring \<Rightarrow> jsstring" where
  "trim s = rev (dropWhile js_whitespace (rev (dropWhile js_whitespace s)))"

text \<open>
  The values \<open>JSON.parse\<close> returns, and \<open>undefined\<close>. A number is the rational its
  literal denotes: the only arithmetic the program does on numbers is \<open>eta--\<close> and
  \<open>eta > 0\<close>, which IEEE doubles compute exactly on integers up to \<open>2^53\<close> and on the
  halves between them. An object is the list of its own properties; a lookup takes
  the first binding of a key.
\<close>

datatype jsval =
    JUndefined
  | JNull
  | JBool bool
  | JNum rat
  | JStr jsstring
  | JArr "jsval list"
  | JObj "(jsstring \<times> jsval) list"

datatype js_error = TypeError

fun truthy :: "jsval \<Rightarrow> bool" where
  "truthy JUndefined = False"
| "truthy JNull = False"
| "truthy (JBool b) = b"
| "truthy (JNum n) = (n \<noteq> 0)"
| "truthy (JStr s) = (s \<noteq> [])"
| "truthy (JArr vs) = True"
| "truthy (JObj fs) = True"

text \<open>
  \<open>v.k\<close> for the property names the source reads (\<open>message\<close>, \<open>driverName\<close>,
  \<open>etaMinutes\<close>, \<open>passengerName\<close>, \<open>passengerRating\<close>, \<open>pickup\<close>, \<open>destination\<close>,
  \<open>fare\<close>, \<open>estimatedFare\<close>): none of them is a property of the prototypes of
  strings, numbers, booleans or arrays, so only an object can have one. Reading a
  property of \<open>null\<close> or \<open>undefined\<close> throws.
\<close>

fun get_prop :: "jsval \<Rightarrow> jsstring \<Rightarrow> js_error + jsval" where
  "get_prop JUndefined k = Inl TypeError"
| "get_prop JNull k = Inl TypeError"
| "get_prop (JObj fs) k = Inr (case map_of fs k of None \<Rightarrow> JUndefined | Some v \<Rightarrow> v)"
| "get_prop v k = Inr JUndefined"

text \<open>The decimal numeral of an array index, the property key of an element.\<close>

function index_key :: "nat \<Rightarrow> jsstring" where
  "index_key n =
     (if n < 10 then [of_nat (48 + n)]
      else index_key (n div 10) @ [of_nat (48 + n mod 10)])"
  by pat_completeness auto
termination
  by (relation "measure id") auto

declare index_key.simps [simp del]

text \<open>
  The own enumerable properties that \<open>{...v}\<close> copies: the properties of an
  object, the elements of an array and the code units of a string under their
  indices, nothing for the other values.
\<close>

fun own_props :: "jsval \<Rightarrow> (jsstring \<times> jsval) list" where
  "own_props (JObj fs) = fs"
| "own_props (JArr vs) = zip (map index_key [0..<length vs]) vs"
| "own_props (JStr s) = zip (map index_key [0..<length s]) (map (\<lambda>c. JStr [c]) s)"
| "own_props v = []"

text \<open>
  Whether \<open>ToString v\<close>, which a template literal applies to each substitution,
  returns. A parsed object has no callable property of its own, so an own
  \<open>toString\<close> hides \<open>Object.prototype.toString\<close> and the conversion throws a
  TypeError; an array joins the conversions of its elements, where \<open>null\<close> counts
  as the empty string.
\<close>

fun tostring_ok :: "jsval \<Rightarrow> bool" where
  "tostring_ok (JArr vs) = (\<forall>v \<in> set vs. tostring_ok v)"
| "tostring_ok (JObj fs) = (map_of fs (js ''toString'') = None)"
| "tostring_ok v = True"

section \<open>The state of the component\<close>

datatype UserMode = Mode_none | Passenger | Driver
datatype DriverStatus = Offline | Online | Request_pending | On_ride | Ride_completed
datatype RideStatus = Searching | Found | Tracking | Completed | Canceled
datatype VehicleType = Car | Bike
datatype PaymentMethod = Cash | Wallet

text \<open>
  What \<open>${apiError.message || '...'}\<close> substitutes in lines 218 and 330.
\<close>

datatype error_message =
    Message jsstring     \<comment> \<open>\<open>apiError.message\<close>, not empty\<close>
  | Unknown_error        \<comment> \<open>the literal that \<open>||\<close> puts for an empty message\<close>
  | Conversion_error     \<comment> \<open>the message of the TypeError of a failed \<open>ToString\<close>\<close>

definition message_or_unknown :: "jsstring \<Rightarrow> error_message" where
  "message_or_unknown m = (if m = [] then Unknown_error else Message m)"

text \<open>
  The strings shown to the user. The Bengali literals and templates of the source
  are kept apart by one constructor each, named after what they say, with the
  substituted values as arguments; \<open>Empty_text\<close> is the literal \<open>''\<close>, the only empty
  one. \<open>Json_text v\<close> is a value of the response shown as it is (line 312).
\<close>

datatype ui_text =
    Empty_text
  | Json_text jsval
  | Err_location_failed jsstring        \<comment> \<open>line 146, with \<open>geoError.message\<close>\<close>
  | Err_offline_geolocation             \<comment> \<open>line 154\<close>
  | Err_geolocation_unsupported         \<comment> \<open>line 159\<close>
  | Msg_new_request jsval jsval jsval jsval rat
      \<comment> \<open>line 208: passenger name, rating, pickup, destination, fare\<close>
  | Msg_request_unparsed                \<comment> \<open>line 211\<close>
  | Msg_no_request                      \<comment> \<open>line 214\<close>
  | Err_request_failed error_message   \<comment> \<open>line 218\<close>
  | Msg_driver_minutes_away rat         \<comment> \<open>line 246\<close>
  | Msg_driver_arrived                  \<comment> \<open>line 249\<close>
  | Err_enter_pickup_and_destination    \<comment> \<open>line 267\<close>
  | Err_offline_find_ride               \<comment> \<open>line 271\<close>
  | Msg_offer_found jsval jsval         \<comment> \<open>line 316: driver name, ETA\<close>
  | Msg_ride_unparsed                   \<comment> \<open>line 321\<close>
  | Msg_no_ai_response                  \<comment> \<open>line 325\<close>
  | Err_find_ride_failed error_message \<comment> \<open>line 330\<close>
  | Msg_ride_accepted jsval             \<comment> \<open>line 340: driver name\<close>
  | Msg_ride_canceled                   \<comment> \<open>line 347\<close>
  | Msg_ride_completed                  \<comment> \<open>line 352\<close>
  | Err_offline_toggle                  \<comment> \<open>line 359\<close>
  | Msg_you_are_online                  \<comment> \<open>line 364\<close>
  | Msg_you_are_offline                 \<comment> \<open>line 364\<close>
  | Msg_request_accepted jsval jsval    \<comment> \<open>line 373: pickup, destination\<close>
  | Msg_request_declined                \<comment> \<open>line 381\<close>
  | Msg_earned "rat option"
      \<comment> \<open>line 387: the fare, or \<open>None\<close> where the source concatenates \<open>undefined\<close>\<close>
  | Err_no_api_key                      \<comment> \<open>line 393\<close>
  | Err_offline_chat                    \<comment> \<open>line 397\<close>
  | Err_offline_send                    \<comment> \<open>line 416\<close>
  | Err_chat_failed                     \<comment> \<open>line 458\<close>

text \<open>
  A chat turn. Its text is a string or the \<open>LoadingSpinner\<close> element; the three
  Bengali literals of the chat are strings, kept apart like the ones above.
\<close>

datatype Sender = User | Ai

datatype chat_text =
    Text jsstring
  | Greeting             \<comment> \<open>line 408\<close>
  | Chat_start_failed    \<comment> \<open>line 428\<close>
  | Chat_error           \<comment> \<open>lines 463 and 465\<close>
  | Spinner              \<comment> \<open>line 436, the only text that is not a string\<close>

record ChatMessage =
  sender :: Sender
  msg_text :: chat_text

text \<open>
  The session object that \<open>ai.chats.create\<close> returns, of the library
  \<open>@google/genai\<close>: all the program does with it is \<open>sendMessageStream\<close>, which adds
  the message to the history the session keeps.
\<close>

record Chat =
  history :: "jsstring list"

text \<open>
  The browser's table of intervals: \<open>setInterval\<close> enters a callback under a new
  identifier, \<open>clearInterval\<close> removes it. A callback is a closure. That of the
  driver's polling (\<open>simulateDriverActivity\<close>) holds the four state variables of the
  render that created it; that of the passenger's tracking holds the local \<open>eta\<close>.
\<close>

record poll_closure =
  cl_driverStatus :: DriverStatus
  cl_isOnline :: bool
  cl_loading :: bool
  cl_hasOffer :: bool

datatype callback = Poll poll_closure | Track jsval

text \<open>
  A ride offer is the object built at line 206 or 315. \<open>offer_id\<close> stands for the
  identity of that object, which the dependency arrays of the effects compare.
\<close>

record RideOffer =
  offer_id :: nat
  props :: "(jsstring \<times> jsval) list"

definition offer_prop :: "RideOffer \<Rightarrow> jsstring \<Rightarrow> jsval" where
  "offer_prop offer k = (case map_of (props offer) k of None \<Rightarrow> JUndefined | Some v \<Rightarrow> v)"

text \<open>
  The closure of a \<open>handleFindRide\<close> call that is waiting for its response, and a
  \<open>handleSendChatMessage\<close> call that is waiting for its stream to open
  (\<open>Dispatching\<close>) or reading it, with \<open>aiResponseText\<close> so far.
\<close>

record find_request =
  req_pickup :: jsval
  req_destination :: jsval

datatype chat_flight = Dispatching | Streaming jsstring

record app_state =
  userMode :: UserMode
  currentLocation :: jsstring
  pickupLocation :: jsval
  destination :: jsval
  vehicleType :: VehicleType
  paymentMethod :: PaymentMethod
  driverStatus :: DriverStatus
  currentRideOffer :: "RideOffer option"
  passengerRideStatus :: "RideStatus option"
  apiResponse :: ui_text
  error :: ui_text
  loading :: bool
  isOnline :: bool
  isChatOpen :: bool
  chatMessages :: "ChatMessage list"
  chatInput :: jsstring
  chatRef :: "Chat option"
  driverRequestIntervalRef :: "nat option"
  rideTrackingIntervalRef :: "nat option"
  intervals :: "(nat \<times> callback) list"
  next_interval :: nat
  next_offer :: nat
  pending_find :: "find_request list"
  pending_poll :: nat
  pending_geo :: nat
  pending_chat :: "chat_flight list"

text \<open>
  The last seven fields are not variables of the component: the browser's interval
  table and its next identifier, the count of offer objects built so far, and the
  asynchronous calls that have not settled yet.
\<close>

definition setInterval :: "callback \<Rightarrow> app_state \<Rightarrow> nat \<times> app_state" where
  "setInterval cb s =
     (next_interval s,
      s\<lparr>intervals := intervals s @ [(next_interval s, cb)],
        next_interval := Suc (next_interval s)\<rparr>)"

definition clearInterval :: "nat \<Rightarrow> app_state \<Rightarrow> app_state" where
  "clearInterval i s = s\<lparr>intervals := filter (\<lambda>(j, cb). j \<noteq> i) (intervals s)\<rparr>"

section \<open>What the program takes from its environment\<close>

text \<open>
  \<open>api_key\<close>: whether \<open>process.env.API_KEY\<close> is set. \<open>geolocation\<close>: whether
  \<open>navigator.geolocation\<close> exists. \<open>JSON_parse\<close> is the built-in, \<open>None\<close> where it
  throws a SyntaxError. \<open>ToNumber\<close> is the conversion that \<open>eta > 0\<close> and \<open>eta--\<close> apply
  to a string, an array or an object: a TypeError, or \<open>None\<close> for NaN, or the number.
\<close>

record env =
  api_key :: bool
  geolocation :: bool
  JSON_parse :: "jsstring \<Rightarrow> jsval option"
  ToNumber :: "jsval \<Rightarrow> js_error + rat option"

text \<open>
  How a request to the AI client settles: the promise is rejected with an Error
  that has the given \<open>message\<close>, or fulfilled with a response whose \<open>text\<close> is a
  string or \<open>undefined\<close>.
\<close>

datatype ai_result = Rejected jsstring | Response "jsstring option"

section \<open>The passenger's handlers\<close>

text \<open>
  \<open>handleFindRide\<close>, lines 265 to 280 and the prompt of line 283: the part that runs
  before the request is sent. The prompt substitutes \<open>pickupLocation\<close> and
  \<open>destination\<close> inside the \<open>try\<close>, so a failed conversion goes to the \<open>catch\<close> of line
  328. Otherwise the call waits, holding the two values it was made with. The
  client of line 282 is constructed with the API key; the handlers that construct
  one run from a control or an interval, and the component renders no control
  without a key (line 500).
\<close>

definition handleFindRide_call :: "app_state \<Rightarrow> app_state" where
  "handleFindRide_call s =
     (if \<not> truthy (pickupLocation s) \<or> \<not> truthy (destination s)
      then s\<lparr>error := Err_enter_pickup_and_destination\<rparr>
      else if \<not> isOnline s
      then s\<lparr>error := Err_offline_find_ride\<rparr>
      else
        let s1 = s\<lparr>loading := True, apiResponse := Empty_text, error := Empty_text,
                   currentRideOffer := None, passengerRideStatus := Some Searching\<rparr>
        in if tostring_ok (pickupLocation s) \<and> tostring_ok (destination s)
           then s1\<lparr>pending_find := pending_find s1 @
                      [\<lparr>req_pickup = pickupLocation s, req_destination = destination s\<rparr>]\<rparr>
           else s1\<lparr>error := Err_find_ride_failed Conversion_error,
                   passengerRideStatus := None, loading := False\<rparr>)"

text \<open>Lines 319 to 322 with the \<open>finally\<close> of line 333.\<close>

definition find_ride_unparsed :: "app_state \<Rightarrow> app_state" where
  "find_ride_unparsed s =
     s\<lparr>apiResponse := Msg_ride_unparsed, passengerRideStatus := None, loading := False\<rparr>"

text \<open>
  Lines 306 to 334: what the call does when its request settles, on the state of
  that moment. The \<open>catch\<close> of line 319 also takes the TypeError of \<open>rideData.message\<close>
  on \<open>null\<close> and that of a substitution in line 316, which comes after
  \<open>setCurrentRideOffer\<close>.
\<close>

definition handleFindRide_settle :: "env \<Rightarrow> find_request \<Rightarrow> ai_result \<Rightarrow> app_state \<Rightarrow> app_state" where
  "handleFindRide_settle e req r s =
     (case r of
        Rejected m \<Rightarrow>
          s\<lparr>error := Err_find_ride_failed (message_or_unknown m),
            passengerRideStatus := None, loading := False\<rparr>
      | Response t \<Rightarrow>
          (case map_option trim t of
             None \<Rightarrow> s\<lparr>apiResponse := Msg_no_ai_response, passengerRideStatus := None,
                       loading := False\<rparr>
           | Some txt \<Rightarrow>
               if txt = []
               then s\<lparr>apiResponse := Msg_no_ai_response, passengerRideStatus := None,
                      loading := False\<rparr>
               else
                 (case JSON_parse e txt of
                    None \<Rightarrow> find_ride_unparsed s
                  | Some rideData \<Rightarrow>
                      (case get_prop rideData (js ''message'') of
                         Inl err \<Rightarrow> find_ride_unparsed s
                       | Inr m \<Rightarrow>
                           if truthy m
                           then s\<lparr>apiResponse := Json_text m, passengerRideStatus := None,
                                  loading := False\<rparr>
                           else
                             let offer = \<lparr>offer_id = next_offer s,
                                          props = (js ''pickup'', req_pickup req) #
                                                  (js ''destination'', req_destination req) #
                                                  own_props rideData\<rparr>;
                                 s1 = s\<lparr>currentRideOffer := Some offer,
                                        next_offer := Suc (next_offer s)\<rparr>;
                                 driverName = (case get_prop rideData (js ''driverName'') of
                                                 Inl err \<Rightarrow> JUndefined | Inr v \<Rightarrow> v);
                                 etaMinutes = (case get_prop rideData (js ''etaMinutes'') of
                                                 Inl err \<Rightarrow> JUndefined | Inr v \<Rightarrow> v)
                             in if tostring_ok driverName \<and> tostring_ok etaMinutes
                                then s1\<lparr>apiResponse := Msg_offer_found driverName etaMinutes,
                                        passengerRideStatus := Some Found, loading := False\<rparr>
                                else find_ride_unparsed s1))))"

text \<open>The whole handler when nothing else happens between the call and the response.\<close>

definition handleFindRide :: "env \<Rightarrow> ai_result \<Rightarrow> app_state \<Rightarrow> app_state" where
  "handleFindRide e r s =
     (let s1 = handleFindRide_call s
      in if length (pending_find s1) = Suc (length (pending_find s))
         then handleFindRide_settle e (last (pending_find s1)) r
                (s1\<lparr>pending_find := butlast (pending_find s1)\<rparr>)
         else s1)"

text \<open>Lines 337 to 354.\<close>

definition handlePassengerAcceptRide :: "app_state \<Rightarrow> app_state" where
  "handlePassengerAcceptRide s =
     (case currentRideOffer s of
        None \<Rightarrow> s
      | Some offer \<Rightarrow>
          let s1 = s\<lparr>passengerRideStatus := Some Tracking\<rparr>
          in if tostring_ok (offer_prop offer (js ''driverName''))
             then s1\<lparr>apiResponse := Msg_ride_accepted (offer_prop offer (js ''driverName''))\<rparr>
             else s1)"

definition handlePassengerCancelRide :: "app_state \<Rightarrow> app_state" where
  "handlePassengerCancelRide s =
     s\<lparr>passengerRideStatus := Some Canceled, currentRideOffer := None,
       apiResponse := Msg_ride_canceled\<rparr>"

definition handlePassengerCompleteRide :: "app_state \<Rightarrow> app_state" where
  "handlePassengerCompleteRide s =
     s\<lparr>passengerRideStatus := Some Completed, apiResponse := Msg_ride_completed,
       currentRideOffer := None\<rparr>"

section \<open>The driver's handlers\<close>

text \<open>Lines 357 to 368.\<close>

definition handleDriverToggleOnline :: "app_state \<Rightarrow> app_state" where
  "handleDriverToggleOnline s =
     (if \<not> isOnline s
      then s\<lparr>error := Err_offline_toggle\<rparr>
      else
        let newStatus = (if driverStatus s = Offline then Online else Offline)
        in s\<lparr>driverStatus := newStatus,
             apiResponse := (if newStatus = Online then Msg_you_are_online
                             else Msg_you_are_offline),
             error := Empty_text, loading := False, currentRideOffer := None\<rparr>)"

text \<open>
  Lines 370 to 377. The template of line 373 is evaluated after \<open>setDriverStatus\<close>
  and before the two copies; an update queued before an exception still applies.
\<close>

definition handleDriverAcceptRide :: "app_state \<Rightarrow> app_state" where
  "handleDriverAcceptRide s =
     (case currentRideOffer s of
        None \<Rightarrow> s
      | Some offer \<Rightarrow>
          let s1 = s\<lparr>driverStatus := On_ride\<rparr>;
              pickup = offer_prop offer (js ''pickup'');
              dest = offer_prop offer (js ''destination'')
          in if tostring_ok pickup \<and> tostring_ok dest
             then s1\<lparr>apiResponse := Msg_request_accepted pickup dest,
                     pickupLocation := pickup, destination := dest\<rparr>
             else s1)"

text \<open>Lines 379 to 383.\<close>

definition handleDriverDeclineRide :: "app_state \<Rightarrow> app_state" where
  "handleDriverDeclineRide s =
     s\<lparr>driverStatus := Online, apiResponse := Msg_request_declined,
       currentRideOffer := None\<rparr>"

text \<open>
  \<open>currentRideOffer?.estimatedFare?.toFixed(2)\<close>: \<open>undefined\<close> without an offer or
  with a fare that is \<open>null\<close> or \<open>undefined\<close>, the text of a number, and a TypeError for
  any other fare, which has no \<open>toFixed\<close> to call.
\<close>

definition fare_fixed :: "RideOffer option \<Rightarrow> js_error + rat option" where
  "fare_fixed offer =
     (case offer of
        None \<Rightarrow> Inr None
      | Some x \<Rightarrow>
          (case offer_prop x (js ''estimatedFare'') of
             JUndefined \<Rightarrow> Inr None
           | JNull \<Rightarrow> Inr None
           | JNum n \<Rightarrow> Inr (Some n)
           | v \<Rightarrow> Inl TypeError))"

text \<open>Lines 385 to 389, and the handler of the button of line 735.\<close>

definition handleDriverCompleteRide :: "app_state \<Rightarrow> app_state" where
  "handleDriverCompleteRide s =
     (let s1 = s\<lparr>driverStatus := Ride_completed\<rparr>
      in case fare_fixed (currentRideOffer s) of
           Inl err \<Rightarrow> s1
         | Inr fare \<Rightarrow> s1\<lparr>apiResponse := Msg_earned fare, currentRideOffer := None\<rparr>)"

definition goOnlineAgain :: "app_state \<Rightarrow> app_state" where
  "goOnlineAgain s = s\<lparr>driverStatus := Online\<rparr>"

text \<open>
  \<open>simulateDriverActivity\<close>, lines 169 to 171: the guard reads the variables of the
  closure. The pickup and destination drawn for the prompt (lines 174 to 179) only
  go into the prompt, which is not part of the state.
\<close>

definition simulateDriverActivity_call :: "poll_closure \<Rightarrow> app_state \<Rightarrow> app_state" where
  "simulateDriverActivity_call c s =
     (if cl_driverStatus c = Online \<and> cl_isOnline c \<and> \<not> cl_loading c \<and> \<not> cl_hasOffer c
      then s\<lparr>loading := True, error := Empty_text, pending_poll := Suc (pending_poll s)\<rparr>
      else s)"

text \<open>
  Lines 201 to 221. The object of line 206 reads \<open>requestData.fare\<close>, which throws
  on \<open>null\<close>; the template of line 208 comes after the two updates, and its
  \<open>fare.toFixed(2)\<close> throws unless the fare is a number.
\<close>

definition simulateDriverActivity_settle :: "env \<Rightarrow> ai_result \<Rightarrow> app_state \<Rightarrow> app_state" where
  "simulateDriverActivity_settle e r s =
     (case r of
        Rejected m \<Rightarrow> s\<lparr>error := Err_request_failed (message_or_unknown m), loading := False\<rparr>
      | Response t \<Rightarrow>
          (case map_option trim t of
             None \<Rightarrow> s\<lparr>apiResponse := Msg_no_request, loading := False\<rparr>
           | Some txt \<Rightarrow>
               if txt = []
               then s\<lparr>apiResponse := Msg_no_request, loading := False\<rparr>
               else
                 (case JSON_parse e txt of
                    None \<Rightarrow> s\<lparr>apiResponse := Msg_request_unparsed, loading := False\<rparr>
                  | Some requestData \<Rightarrow>
                      (case get_prop requestData (js ''fare'') of
                         Inl err \<Rightarrow> s\<lparr>apiResponse := Msg_request_unparsed, loading := False\<rparr>
                       | Inr fare \<Rightarrow>
                           let offer = \<lparr>offer_id = next_offer s,
                                        props = (js ''estimatedFare'', fare) #
                                                own_props requestData\<rparr>;
                               s1 = s\<lparr>currentRideOffer := Some offer,
                                      next_offer := Suc (next_offer s),
                                      driverStatus := Request_pending\<rparr>;
                               field = (\<lambda>k. case get_prop requestData k of
                                              Inl err \<Rightarrow> JUndefined | Inr v \<Rightarrow> v)
                           in case fare of
                                JNum n \<Rightarrow>
                                  if tostring_ok (field (js ''passengerName'')) \<and>
                                     tostring_ok (field (js ''passengerRating'')) \<and>
                                     tostring_ok (field (js ''pickup'')) \<and>
                                     tostring_ok (field (js ''destination''))
                                  then s1\<lparr>apiResponse :=
                                            Msg_new_request (field (js ''passengerName''))
                                              (field (js ''passengerRating''))
                                              (field (js ''pickup''))
                                              (field (js ''destination'')) n,
                                          loading := False\<rparr>
                                  else s1\<lparr>apiResponse := Msg_request_unparsed, loading := False\<rparr>
                              | v \<Rightarrow> s1\<lparr>apiResponse := Msg_request_unparsed, loading := False\<rparr>))))"

section \<open>The chat\<close>

text \<open>Lines 391 to 410.\<close>

definition initializeChat :: "env \<Rightarrow> app_state \<Rightarrow> app_state" where
  "initializeChat e s =
     (if \<not> api_key e then s\<lparr>error := Err_no_api_key\<rparr>
      else if \<not> isOnline s then s\<lparr>error := Err_offline_chat\<rparr>
      else if chatRef s = None
      then s\<lparr>chatRef := Some \<lparr>history = []\<rparr>,
             chatMessages := [\<lparr>sender = Ai, msg_text = Greeting\<rparr>]\<rparr>
      else s)"

text \<open>Lines 472 to 477.\<close>

definition handleToggleChat :: "env \<Rightarrow> app_state \<Rightarrow> app_state" where
  "handleToggleChat e s =
     (let s1 = s\<lparr>isChatOpen := \<not> isChatOpen s\<rparr>
      in if \<not> isChatOpen s \<and> chatRef s = None then initializeChat e s1 else s1)"

text \<open>
  \<open>handleSendChatMessage\<close>, lines 412 to 434, up to the call of \<open>sendMessageStream\<close>,
  which hands the message to the session; the call then waits for the stream.
\<close>

definition handleSendChatMessage_call :: "env \<Rightarrow> app_state \<Rightarrow> app_state" where
  "handleSendChatMessage_call e s =
     (if trim (chatInput s) = [] then s
      else if \<not> isOnline s then s\<lparr>error := Err_offline_send\<rparr>
      else
        let userMessage = chatInput s;
            s1 = s\<lparr>chatMessages := chatMessages s @ [\<lparr>sender = User, msg_text = Text userMessage\<rparr>],
                   chatInput := [], error := Empty_text\<rparr>;
            s2 = (if chatRef s1 = None then initializeChat e s1 else s1)
        in case chatRef s2 of
             None \<Rightarrow>
               s2\<lparr>chatMessages := chatMessages s2 @
                     [\<lparr>sender = Ai, msg_text = Chat_start_failed\<rparr>]\<rparr>
           | Some c \<Rightarrow>
               s2\<lparr>chatRef := Some (c\<lparr>history := history c @ [userMessage]\<rparr>),
                  pending_chat := pending_chat s2 @ [Dispatching]\<rparr>)"

text \<open>Line 436: the stream is open, the placeholder is appended.\<close>

definition stream_opened :: "ChatMessage list \<Rightarrow> ChatMessage list" where
  "stream_opened prev = prev @ [\<lparr>sender = Ai, msg_text = Spinner\<rparr>]"

text \<open>
  Lines 442 to 453, the update of the turns for one fragment, with
  \<open>aiResponseText\<close> after the fragment was added to it.
\<close>

definition show_fragment :: "jsstring \<Rightarrow> ChatMessage list \<Rightarrow> ChatMessage list" where
  "show_fragment aiResponseText prev =
     (if prev \<noteq> [] \<and> msg_text (last prev) = Spinner
      then butlast prev @ [\<lparr>sender = Ai, msg_text = Text aiResponseText\<rparr>]
      else if prev \<noteq> [] \<and> sender (last prev) = Ai
      then butlast prev @ [\<lparr>sender = Ai, msg_text = Text aiResponseText\<rparr>]
      else prev @ [\<lparr>sender = Ai, msg_text = Text aiResponseText\<rparr>])"

text \<open>
  Lines 439 to 454, the body of the loop for one chunk, on \<open>aiResponseText\<close> and the
  turns. A fragment is the \<open>text\<close> of a chunk, \<open>None\<close> for \<open>undefined\<close>.
\<close>

definition read_chunk :: "jsstring option \<Rightarrow> jsstring \<times> ChatMessage list \<Rightarrow> jsstring \<times> ChatMessage list" where
  "read_chunk c = (\<lambda>(aiResponseText, msgs).
     case c of
       None \<Rightarrow> (aiResponseText, msgs)
     | Some t \<Rightarrow>
         if t = [] then (aiResponseText, msgs)
         else (aiResponseText @ t, show_fragment (aiResponseText @ t) msgs))"

text \<open>
  Lines 438 to 455, the loop over the stream when no other update of the turns
  comes between two chunks.
\<close>

definition read_stream :: "jsstring option list \<Rightarrow> jsstring \<times> ChatMessage list \<Rightarrow> jsstring \<times> ChatMessage list" where
  "read_stream chunks = fold read_chunk chunks"

text \<open>Lines 459 to 468, the update of the turns in the \<open>catch\<close>.\<close>

definition stream_failed :: "ChatMessage list \<Rightarrow> ChatMessage list" where
  "stream_failed prev =
     (if prev \<noteq> [] \<and> sender (last prev) = Ai \<and>
         (msg_text (last prev) = Spinner \<or> msg_text (last prev) = Text (js ''...''))
      then butlast prev @ [\<lparr>sender = Ai, msg_text = Chat_error\<rparr>]
      else prev @ [\<lparr>sender = Ai, msg_text = Chat_error\<rparr>])"

text \<open>
  A whole answer: the stream opens, the fragments arrive, and the stream ends or
  fails after them.
\<close>

definition receive_answer :: "jsstring option list \<Rightarrow> bool \<Rightarrow> app_state \<Rightarrow> app_state" where
  "receive_answer chunks fails s =
     (let msgs = snd (read_stream chunks ([], stream_opened (chatMessages s)))
      in if fails then s\<lparr>error := Err_chat_failed, chatMessages := stream_failed msgs\<rparr>
         else s\<lparr>chatMessages := msgs\<rparr>)"

section \<open>Reset\<close>

text \<open>Lines 479 to 497.\<close>

definition resetAppState :: "app_state \<Rightarrow> app_state" where
  "resetAppState s =
     (let s1 = s\<lparr>userMode := Mode_none, pickupLocation := JStr (currentLocation s),
                 destination := JStr [], driverStatus := Offline,
                 passengerRideStatus := None, currentRideOffer := None,
                 apiResponse := Empty_text, error := Empty_text, loading := False\<rparr>;
          s2 = (case driverRequestIntervalRef s1 of
                  None \<Rightarrow> s1
                | Some i \<Rightarrow> (clearInterval i s1)\<lparr>driverRequestIntervalRef := None\<rparr>)
      in case rideTrackingIntervalRef s2 of
           None \<Rightarrow> s2
         | Some i \<Rightarrow> (clearInterval i s2)\<lparr>rideTrackingIntervalRef := None\<rparr>)"

section \<open>The effects and the timers\<close>

text \<open>
  An interval identifier is a positive number, so a reference to one is truthy
  exactly when it is not \<open>null\<close>.

  Lines 225 to 236: the body of the polling effect and the cleanup it returns.
\<close>

definition polling_effect :: "app_state \<Rightarrow> app_state" where
  "polling_effect s =
     (if driverStatus s = Online \<and> driverRequestIntervalRef s = None
      then
        let (i, s1) = setInterval (Poll \<lparr>cl_driverStatus = driverStatus s,
                                         cl_isOnline = isOnline s, cl_loading = loading s,
                                         cl_hasOffer = (currentRideOffer s \<noteq> None)\<rparr>) s
        in s1\<lparr>driverRequestIntervalRef := Some i\<rparr>
      else if driverStatus s \<noteq> Online
      then (case driverRequestIntervalRef s of
              None \<Rightarrow> s
            | Some i \<Rightarrow> (clearInterval i s)\<lparr>driverRequestIntervalRef := None\<rparr>)
      else s)"

definition polling_cleanup :: "app_state \<Rightarrow> app_state" where
  "polling_cleanup s =
     (case driverRequestIntervalRef s of None \<Rightarrow> s | Some i \<Rightarrow> clearInterval i s)"

text \<open>Lines 241 to 261: the body of the tracking effect and its cleanup.\<close>

definition initial_eta :: "RideOffer option \<Rightarrow> jsval" where
  "initial_eta offer =
     (case offer of
        None \<Rightarrow> JNum 5
      | Some x \<Rightarrow> if truthy (offer_prop x (js ''etaMinutes''))
                  then offer_prop x (js ''etaMinutes'') else JNum 5)"

definition tracking_effect :: "app_state \<Rightarrow> app_state" where
  "tracking_effect s =
     (if passengerRideStatus s = Some Tracking
      then
        let (i, s1) = setInterval (Track (initial_eta (currentRideOffer s))) s
        in s1\<lparr>rideTrackingIntervalRef := Some i\<rparr>
      else
        (case rideTrackingIntervalRef s of
           None \<Rightarrow> s
         | Some i \<Rightarrow> (clearInterval i s)\<lparr>rideTrackingIntervalRef := None\<rparr>))"

definition tracking_cleanup :: "app_state \<Rightarrow> app_state" where
  "tracking_cleanup s =
     (case rideTrackingIntervalRef s of None \<Rightarrow> s | Some i \<Rightarrow> clearInterval i s)"

text \<open>
  Lines 243 to 252, one tick of the tracking interval \<open>i\<close> whose closure holds \<open>eta\<close>.
  \<open>numeric\<close> is the number that \<open>eta > 0\<close> and \<open>eta--\<close> convert \<open>eta\<close> to; a comparison
  with NaN is false. A conversion that throws ends the callback. The counter is a
  rational and \<open>n - 1\<close> is exact. The counter of the program is a double: it has
  the same values where \<open>n\<close> and \<open>n - 1\<close> are doubles, as the whole numbers up to
  \<open>2^53\<close> and the halves between them are, and a rounded value elsewhere. The
  statements about the countdown keep to whole numbers up to \<open>2^53\<close> and to \<open>2.5\<close>.
\<close>

definition numeric :: "env \<Rightarrow> jsval \<Rightarrow> js_error + rat option" where
  "numeric e v =
     (case v of
        JNum n \<Rightarrow> Inr (Some n)
      | JBool b \<Rightarrow> Inr (Some (if b then 1 else 0))
      | JNull \<Rightarrow> Inr (Some 0)
      | JUndefined \<Rightarrow> Inr None
      | w \<Rightarrow> ToNumber e w)"

definition set_eta :: "nat \<Rightarrow> jsval \<Rightarrow> (nat \<times> callback) list \<Rightarrow> (nat \<times> callback) list" where
  "set_eta i eta tab = map (\<lambda>(j, cb). if j = i then (j, Track eta) else (j, cb)) tab"

definition tracking_arrived :: "app_state \<Rightarrow> app_state" where
  "tracking_arrived s =
     (let s1 = (case rideTrackingIntervalRef s of None \<Rightarrow> s | Some j \<Rightarrow> clearInterval j s)
      in s1\<lparr>apiResponse := Msg_driver_arrived, passengerRideStatus := Some Completed\<rparr>)"

definition tracking_tick :: "env \<Rightarrow> nat \<Rightarrow> jsval \<Rightarrow> app_state \<Rightarrow> app_state" where
  "tracking_tick e i eta s =
     (case numeric e eta of
        Inl err \<Rightarrow> s
      | Inr None \<Rightarrow> tracking_arrived s
      | Inr (Some n) \<Rightarrow>
          if n > 0
          then s\<lparr>intervals := set_eta i (JNum (n - 1)) (intervals s),
                 apiResponse := Msg_driver_minutes_away (n - 1)\<rparr>
          else tracking_arrived s)"

text \<open>Lines 126 to 164: the geolocation effect and the two callbacks it passes.\<close>

definition geolocation_effect :: "env \<Rightarrow> app_state \<Rightarrow> app_state" where
  "geolocation_effect e s =
     (if geolocation e \<and> isOnline s
      then s\<lparr>loading := True, pending_geo := Suc (pending_geo s)\<rparr>
      else if \<not> isOnline s
      then s\<lparr>error := Err_offline_geolocation,
             currentLocation := js ''Manual Entry Needed (Offline)'',
             pickupLocation := JStr [], loading := False\<rparr>
      else s\<lparr>error := Err_geolocation_unsupported,
             currentLocation := js ''Manual Entry Needed'',
             pickupLocation := JStr [], loading := False\<rparr>)"

definition position_found :: "jsstring \<Rightarrow> app_state \<Rightarrow> app_state" where
  "position_found locationString s =
     s\<lparr>currentLocation := locationString, pickupLocation := JStr locationString,
       error := Empty_text, loading := False\<rparr>"

definition position_failed :: "jsstring \<Rightarrow> app_state \<Rightarrow> app_state" where
  "position_failed message s =
     s\<lparr>error := Err_location_failed message, loading := False,
       currentLocation := js ''Manual Entry Needed'', pickupLocation := JStr []\<rparr>"

text \<open>
  After a handler, and before the next event, React renders with the new state
  and runs the effects whose dependencies changed: first the cleanups of the
  previous render, then the bodies, in the order of the source. The dependency arrays are those of lines
  164, 237 and 262; an offer is compared by identity. The geolocation effect
  updates the state, which renders once more.
\<close>

definition offer_identity :: "app_state \<Rightarrow> nat option" where
  "offer_identity s = map_option offer_id (currentRideOffer s)"

definition polling_deps_changed :: "app_state \<Rightarrow> app_state \<Rightarrow> bool" where
  "polling_deps_changed prev cur \<longleftrightarrow>
     driverStatus prev \<noteq> driverStatus cur \<or> isOnline prev \<noteq> isOnline cur \<or>
     loading prev \<noteq> loading cur \<or> offer_identity prev \<noteq> offer_identity cur"

definition tracking_deps_changed :: "app_state \<Rightarrow> app_state \<Rightarrow> bool" where
  "tracking_deps_changed prev cur \<longleftrightarrow>
     passengerRideStatus prev \<noteq> passengerRideStatus cur \<or>
     offer_identity prev \<noteq> offer_identity cur"

definition timer_effects :: "app_state \<Rightarrow> app_state \<Rightarrow> app_state" where
  "timer_effects prev cur =
     (let p = polling_deps_changed prev cur;
          t = tracking_deps_changed prev cur;
          s1 = (if p then polling_cleanup cur else cur);
          s2 = (if t then tracking_cleanup s1 else s1);
          s3 = (if p then polling_effect s2 else s2)
      in if t then tracking_effect s3 else s3)"

definition render :: "env \<Rightarrow> app_state \<Rightarrow> app_state \<Rightarrow> app_state" where
  "render e prev cur =
     (let s = timer_effects prev cur
      in if isOnline prev \<noteq> isOnline cur
         then timer_effects s (geolocation_effect e s)
         else s)"

section \<open>Events\<close>

text \<open>
  What can happen to the component: the browser's \<open>online\<close> and \<open>offline\<close> events,
  the callbacks of the position request, the controls of lines 519 to 782, the
  ticks of the intervals, and the settling of the requests that are waiting.
\<close>

datatype event =
    Network bool
  | Position_found jsstring
  | Position_failed jsstring
  | Select_mode UserMode
  | Edit_pickup jsstring
  | Edit_destination jsstring
  | Edit_vehicle VehicleType
  | Edit_payment PaymentMethod
  | Find_ride
  | Find_ride_settled nat ai_result
  | Passenger_accept
  | Passenger_cancel
  | Passenger_complete
  | Reset
  | Driver_toggle
  | Driver_accept
  | Driver_decline
  | Driver_complete
  | Go_online_again
  | Tick nat
  | Poll_settled ai_result
  | Toggle_chat
  | Edit_chat jsstring
  | Send_chat
  | Stream_opened nat
  | Stream_chunk nat "jsstring option"
  | Stream_ended nat
  | Stream_failed nat

text \<open>
  Lines 553 and 566: the passenger's form is rendered unless the ride is tracked
  or completed, and its fields are disabled while loading or without connectivity.
\<close>

definition passenger_form :: "env \<Rightarrow> app_state \<Rightarrow> bool" where
  "passenger_form e s \<longleftrightarrow>
     api_key e \<and> userMode s = Passenger \<and>
     passengerRideStatus s \<noteq> Some Tracking \<and> passengerRideStatus s \<noteq> Some Completed"

text \<open>
  Whether the control of an event is rendered and not disabled, and for a callback
  whether the call it belongs to is waiting. Without an API key the component
  renders no control (line 500).

  These are the conditions of the JSX. The JSX also evaluates the offer it shows:
  line 622 calls \<open>toFixed\<close> on the fare of the passenger's offer, lines 702 and 718 on
  the fare of the driver's request unless that is \<open>null\<close> or \<open>undefined\<close>, and the
  other properties of the offer are children of the cards (lines 619 to 621, 640,
  641, 699 to 701 and 717). With a fare that is not a number, or a property that
  is an object, the render throws, and the page, which has no error boundary
  (lines 789 to 796), shows no control any more. \<open>enabled\<close> does not look at the
  properties of the offer: it holds wherever a control can be pressed, and also
  where its card would be rendered had the render not thrown. A statement that
  assumes \<open>enabled\<close> therefore covers every state in which the control exists; an
  example that presses a control does so in a state whose offer has every property
  of the schema, with the type the schema gives it.
\<close>

fun enabled :: "env \<Rightarrow> app_state \<Rightarrow> event \<Rightarrow> bool" where
  "enabled e s (Network b) = True"
| "enabled e s (Position_found l) = (pending_geo s > 0)"
| "enabled e s (Position_failed m) = (pending_geo s > 0)"
| "enabled e s (Select_mode m) =
     (api_key e \<and> userMode s = Mode_none \<and> m \<noteq> Mode_none \<and> \<not> loading s \<and> isOnline s)"
| "enabled e s (Edit_pickup v) = (passenger_form e s \<and> \<not> loading s \<and> isOnline s)"
| "enabled e s (Edit_destination v) = (passenger_form e s \<and> \<not> loading s \<and> isOnline s)"
| "enabled e s (Edit_vehicle v) = (passenger_form e s \<and> \<not> loading s \<and> isOnline s)"
| "enabled e s (Edit_payment v) = (passenger_form e s \<and> \<not> loading s \<and> isOnline s)"
| "enabled e s Find_ride =
     (passenger_form e s \<and> \<not> loading s \<and> isOnline s \<and>
      truthy (pickupLocation s) \<and> truthy (destination s))"
| "enabled e s (Find_ride_settled k r) = (k < length (pending_find s))"
| "enabled e s Passenger_accept =
     (api_key e \<and> userMode s = Passenger \<and> passengerRideStatus s = Some Found \<and>
      currentRideOffer s \<noteq> None \<and> \<not> loading s \<and> isOnline s)"
| "enabled e s Passenger_cancel =
     (api_key e \<and> userMode s = Passenger \<and> passengerRideStatus s = Some Found \<and>
      currentRideOffer s \<noteq> None \<and> \<not> loading s \<and> isOnline s)"
| "enabled e s Passenger_complete =
     (api_key e \<and> userMode s = Passenger \<and> passengerRideStatus s = Some Tracking \<and>
      currentRideOffer s \<noteq> None \<and> isOnline s)"
| "enabled e s Reset =
     (passenger_form e s \<or>
      (api_key e \<and> userMode s = Passenger \<and> passengerRideStatus s = Some Completed \<and> isOnline s) \<or>
      (api_key e \<and> userMode s = Driver \<and> \<not> loading s))"
| "enabled e s Driver_toggle =
     (api_key e \<and> userMode s = Driver \<and> \<not> loading s \<and> isOnline s)"
| "enabled e s Driver_accept =
     (api_key e \<and> userMode s = Driver \<and> currentRideOffer s \<noteq> None \<and>
      driverStatus s = Request_pending \<and> \<not> loading s \<and> isOnline s)"
| "enabled e s Driver_decline =
     (api_key e \<and> userMode s = Driver \<and> currentRideOffer s \<noteq> None \<and>
      driverStatus s = Request_pending \<and> \<not> loading s \<and> isOnline s)"
| "enabled e s Driver_complete =
     (api_key e \<and> userMode s = Driver \<and> driverStatus s = On_ride \<and>
      currentRideOffer s \<noteq> None \<and> isOnline s)"
| "enabled e s Go_online_again =
     (api_key e \<and> userMode s = Driver \<and> driverStatus s = Ride_completed \<and> isOnline s)"
| "enabled e s (Tick i) = (map_of (intervals s) i \<noteq> None)"
| "enabled e s (Poll_settled r) = (pending_poll s > 0)"
| "enabled e s Toggle_chat = api_key e"
| "enabled e s (Edit_chat v) = (api_key e \<and> isOnline s)"
| "enabled e s Send_chat = (api_key e \<and> isOnline s \<and> trim (chatInput s) \<noteq> [])"
| "enabled e s (Stream_opened k) =
     (k < length (pending_chat s) \<and> pending_chat s ! k = Dispatching)"
| "enabled e s (Stream_chunk k c) =
     (k < length (pending_chat s) \<and> pending_chat s ! k \<noteq> Dispatching)"
| "enabled e s (Stream_ended k) =
     (k < length (pending_chat s) \<and> pending_chat s ! k \<noteq> Dispatching)"
| "enabled e s (Stream_failed k) = (k < length (pending_chat s))"

definition remove_nth :: "nat \<Rightarrow> 'a list \<Rightarrow> 'a list" where
  "remove_nth k xs = take k xs @ drop (Suc k) xs"

text \<open>The handler of an enabled event, before the render that follows it.\<close>

fun handle :: "env \<Rightarrow> event \<Rightarrow> app_state \<Rightarrow> app_state" where
  "handle e (Network b) s = s\<lparr>isOnline := b\<rparr>"
| "handle e (Position_found l) s = position_found l (s\<lparr>pending_geo := pending_geo s - 1\<rparr>)"
| "handle e (Position_failed m) s = position_failed m (s\<lparr>pending_geo := pending_geo s - 1\<rparr>)"
| "handle e (Select_mode m) s = s\<lparr>userMode := m\<rparr>"
| "handle e (Edit_pickup v) s = s\<lparr>pickupLocation := JStr v\<rparr>"
| "handle e (Edit_destination v) s = s\<lparr>destination := JStr v\<rparr>"
| "handle e (Edit_vehicle v) s = s\<lparr>vehicleType := v\<rparr>"
| "handle e (Edit_payment v) s = s\<lparr>paymentMethod := v\<rparr>"
| "handle e Find_ride s = handleFindRide_call s"
| "handle e (Find_ride_settled k r) s =
     handleFindRide_settle e (pending_find s ! k) r
       (s\<lparr>pending_find := remove_nth k (pending_find s)\<rparr>)"
| "handle e Passenger_accept s = handlePassengerAcceptRide s"
| "handle e Passenger_cancel s = handlePassengerCancelRide s"
| "handle e Passenger_complete s = handlePassengerCompleteRide s"
| "handle e Reset s = resetAppState s"
| "handle e Driver_toggle s = handleDriverToggleOnline s"
| "handle e Driver_accept s = handleDriverAcceptRide s"
| "handle e Driver_decline s = handleDriverDeclineRide s"
| "handle e Driver_complete s = handleDriverCompleteRide s"
| "handle e Go_online_again s = goOnlineAgain s"
| "handle e (Tick i) s =
     (case map_of (intervals s) i of
        None \<Rightarrow> s
      | Some (Poll c) \<Rightarrow> simulateDriverActivity_call c s
      | Some (Track eta) \<Rightarrow> tracking_tick e i eta s)"
| "handle e (Poll_settled r) s =
     simulateDriverActivity_settle e r (s\<lparr>pending_poll := pending_poll s - 1\<rparr>)"
| "handle e Toggle_chat s = handleToggleChat e s"
| "handle e (Edit_chat v) s = s\<lparr>chatInput := v\<rparr>"
| "handle e Send_chat s = handleSendChatMessage_call e s"
| "handle e (Stream_opened k) s =
     s\<lparr>chatMessages := stream_opened (chatMessages s),
       pending_chat := (pending_chat s)[k := Streaming []]\<rparr>"
| "handle e (Stream_chunk k c) s =
     (case pending_chat s ! k of
        Dispatching \<Rightarrow> s
      | Streaming aiResponseText \<Rightarrow>
          let (txt, msgs) = read_chunk c (aiResponseText, chatMessages s)
          in s\<lparr>chatMessages := msgs, pending_chat := (pending_chat s)[k := Streaming txt]\<rparr>)"
| "handle e (Stream_ended k) s = s\<lparr>pending_chat := remove_nth k (pending_chat s)\<rparr>"
| "handle e (Stream_failed k) s =
     s\<lparr>error := Err_chat_failed, chatMessages := stream_failed (chatMessages s),
       pending_chat := remove_nth k (pending_chat s)\<rparr>"

definition step :: "env \<Rightarrow> event \<Rightarrow> app_state \<Rightarrow> app_state" where
  "step e ev s = (if enabled e s ev then render e s (handle e ev s) else s)"

definition run :: "env \<Rightarrow> event list \<Rightarrow> app_state \<Rightarrow> app_state" where
  "run e evs s = fold (step e) evs s"

text \<open>
  Lines 77 to 100, the state before the first render, and the state after the
  effects of the first render, where nothing has a cleanup yet.
\<close>

definition initial :: "bool \<Rightarrow> app_state" where
  "initial onLine =
     \<lparr>userMode = Mode_none, currentLocation = [], pickupLocation = JStr [],
      destination = JStr [], vehicleType = Car, paymentMethod = Cash,
      driverStatus = Offline, currentRideOffer = None, passengerRideStatus = None,
      apiResponse = Empty_text, error = Empty_text, loading = False, isOnline = onLine,
      isChatOpen = False, chatMessages = [], chatInput = [], chatRef = None,
      driverRequestIntervalRef = None, rideTrackingIntervalRef = None,
      intervals = [], next_interval = 1, next_offer = 0,
      pending_find = [], pending_poll = 0, pending_geo = 0, pending_chat = []\<rparr>"

definition mounted :: "env \<Rightarrow> bool \<Rightarrow> app_state" where
  "mounted e onLine =
     (let s = tracking_effect (polling_effect (initial onLine))
      in timer_effects s (geolocation_effect e s))"

text \<open>
  The states the component can be in: \<open>reachable_by allowed\<close> are those that the
  events of \<open>allowed\<close> lead to.
\<close>

inductive reachable_by :: "(event \<Rightarrow> bool) \<Rightarrow> env \<Rightarrow> app_state \<Rightarrow> bool"
  for allowed :: "event \<Rightarrow> bool" and e :: env where
  at_start: "reachable_by allowed e (mounted e onLine)"
| after_step: "reachable_by allowed e s \<Longrightarrow> allowed ev \<Longrightarrow> reachable_by allowed e (step e ev s)"

abbreviation reachable :: "env \<Rightarrow> app_state \<Rightarrow> bool" where
  "reachable \<equiv> reachable_by (\<lambda>ev. True)"

section \<open>Sample inputs\<close>

text \<open>
  An environment for the examples: its \<open>JSON_parse\<close> knows three response texts, an
  offer, an offer with a fractional ETA and a ride request, and rejects every
  other text. Each of the three has every property of its schema (lines 292 to
  303, and 188 to 198), a string where the schema says STRING and a number where
  it says NUMBER, so the cards of lines 616 to 652 and 696 to 725 render with it.
\<close>

definition offer_text :: jsstring where
  "offer_text = js ''{\"driverName\":\"Rahim\",\"driverRating\":4.5,\"vehicleType\":\"Car\",\"licensePlate\":\"DHA-1234\",\"etaMinutes\":2,\"estimatedFare\":250}''"

definition half_offer_text :: jsstring where
  "half_offer_text = js ''{\"driverName\":\"Rahim\",\"driverRating\":4.5,\"vehicleType\":\"Car\",\"licensePlate\":\"DHA-1234\",\"etaMinutes\":2.5,\"estimatedFare\":250}''"

definition request_text :: jsstring where
  "request_text = js ''{\"passengerName\":\"Ahmed\",\"passengerRating\":4.5,\"pickup\":\"Farmgate\",\"destination\":\"Motijheel\",\"fare\":250}''"

definition sample_parse :: "jsstring \<Rightarrow> jsval option" where
  "sample_parse t =
     (if t = offer_text
      then Some (JObj [(js ''driverName'', JStr (js ''Rahim'')),
                       (js ''driverRating'', JNum (9 / 2)),
                       (js ''vehicleType'', JStr (js ''Car'')),
                       (js ''licensePlate'', JStr (js ''DHA-1234'')),
                       (js ''etaMinutes'', JNum 2),
                       (js ''estimatedFare'', JNum 250)])
      else if t = half_offer_text
      then Some (JObj [(js ''driverName'', JStr (js ''Rahim'')),
                       (js ''driverRating'', JNum (9 / 2)),
                       (js ''vehicleType'', JStr (js ''Car'')),
                       (js ''licensePlate'', JStr (js ''DHA-1234'')),
                       (js ''etaMinutes'', JNum (5 / 2)),
                       (js ''estimatedFare'', JNum 250)])
      else if t = request_text
      then Some (JObj [(js ''passengerName'', JStr (js ''Ahmed'')),
                       (js ''passengerRating'', JNum (9 / 2)),
                       (js ''pickup'', JStr (js ''Farmgate'')),
                       (js ''destination'', JStr (js ''Motijheel'')),
                       (js ''fare'', JNum 250)])
      else None)"

definition sample_env :: env where
  "sample_env = \<lparr>api_key = True, geolocation = True, JSON_parse = sample_parse,
                  ToNumber = (\<lambda>v. Inr None)\<rparr>"

text \<open>The page has loaded with connectivity, and the position was found.\<close>

definition sample_location :: jsstring where
  "sample_location = js ''Approx. Farmgate (Lat: 23.7580, Lon: 90.3900)''"

definition sample_located :: app_state where
  "sample_located = step sample_env (Position_found sample_location) (mounted sample_env True)"

text \<open>
  A passenger who has entered a pickup and a destination, and the same passenger
  after asking for a ride and getting an offer.
\<close>

definition passenger_ready :: "event list" where
  "passenger_ready =
     [Select_mode Passenger, Edit_pickup (js ''Farmgate''), Edit_destination (js ''Motijheel'')]"

definition sample_ready :: app_state where
  "sample_ready = run sample_env passenger_ready sample_located"

definition sample_found :: app_state where
  "sample_found =
     run sample_env
       (passenger_ready @ [Find_ride, Find_ride_settled 0 (Response (Some offer_text))])
       sample_located"

text \<open>
  A driver who has gone online and has got a request at the first tick of the
  polling interval, and the same driver after the connection was lost.
\<close>

definition driver_requested :: "event list" where
  "driver_requested =
     [Select_mode Driver, Driver_toggle, Tick 1, Poll_settled (Response (Some request_text))]"

definition sample_pending :: app_state where
  "sample_pending = run sample_env driver_requested sample_located"

definition sample_disconnected :: app_state where
  "sample_disconnected =
     run sample_env (driver_requested @ [Network False]) sample_located"

text \<open>
  A passenger who has accepted the offer with an ETA of two minutes, and one who
  has accepted an offer with an ETA of two minutes and a half; the tracking
  interval is the first interval of the page. A driver who has gone online and
  waits for the first tick.
\<close>

definition sample_tracking :: app_state where
  "sample_tracking =
     run sample_env
       (passenger_ready @
        [Find_ride, Find_ride_settled 0 (Response (Some offer_text)), Passenger_accept])
       sample_located"

definition sample_tracking_half :: app_state where
  "sample_tracking_half =
     run sample_env
       (passenger_ready @
        [Find_ride, Find_ride_settled 0 (Response (Some half_offer_text)), Passenger_accept])
       sample_located"

definition sample_waiting :: app_state where
  "sample_waiting = run sample_env [Select_mode Driver, Driver_toggle] sample_located"

text \<open>A state without connectivity, with a message typed into the chat.\<close>

definition sample_typed :: app_state where
  "sample_typed =
     run sample_env [Toggle_chat, Edit_chat (js ''Hi''), Network False] sample_located"

section \<open>Notions of the claims\<close>

text \<open>
  A well-formed offer response: the trimmed text is not empty and parses to an
  object without a \<open>message\<close>, whose \<open>driverName\<close> and \<open>etaMinutes\<close>, the
  substitutions of line 316, convert to strings where it has them. Every object
  with properties of the schema of lines 292 to 303 only, strings and numbers, is
  such an object.
\<close>

definition printable :: "(jsstring \<times> jsval) list \<Rightarrow> jsstring \<Rightarrow> bool" where
  "printable fs k = (case map_of fs k of None \<Rightarrow> True | Some x \<Rightarrow> tostring_ok x)"

definition well_formed_offer :: "env \<Rightarrow> jsstring \<Rightarrow> bool" where
  "well_formed_offer e t \<longleftrightarrow>
     trim t \<noteq> [] \<and>
     (case JSON_parse e (trim t) of
        Some (JObj fs) \<Rightarrow>
          map_of fs (js ''message'') = None \<and>
          printable fs (js ''driverName'') \<and> printable fs (js ''etaMinutes'')
      | other \<Rightarrow> False)"


text \<open>
  The events of the passenger's ride; and the other events, with ride requests
  whose fare, where their text parses, is a number or is missing, as the schema
  of lines 188 to 198 asks.
\<close>

fun passenger_flow :: "event \<Rightarrow> bool" where
  "passenger_flow Find_ride = True"
| "passenger_flow (Find_ride_settled k r) = True"
| "passenger_flow Passenger_accept = True"
| "passenger_flow Passenger_cancel = True"
| "passenger_flow Passenger_complete = True"
| "passenger_flow ev = False"

definition numeric_fare :: "env \<Rightarrow> ai_result \<Rightarrow> bool" where
  "numeric_fare e r =
     (case r of
        Rejected m \<Rightarrow> True
      | Response None \<Rightarrow> True
      | Response (Some t) \<Rightarrow>
          (case JSON_parse e (trim t) of
             None \<Rightarrow> True
           | Some v \<Rightarrow>
               (case get_prop v (js ''fare'') of
                  Inl err \<Rightarrow> True
                | Inr (JNum n) \<Rightarrow> True
                | Inr JNull \<Rightarrow> True
                | Inr JUndefined \<Rightarrow> True
                | Inr w \<Rightarrow> False)))"

definition driver_side :: "env \<Rightarrow> event \<Rightarrow> bool" where
  "driver_side e ev =
     (case ev of
        Poll_settled r \<Rightarrow> numeric_fare e r
      | other \<Rightarrow> \<not> passenger_flow other)"

text \<open>
  The identifiers of the scheduled polling intervals and of the scheduled
  tracking intervals, and the \<open>eta\<close> that the closure of a tracking interval holds.
\<close>

fun is_poll :: "callback \<Rightarrow> bool" where
  "is_poll (Poll c) = True"
| "is_poll (Track eta) = False"

definition poll_ids :: "app_state \<Rightarrow> nat list" where
  "poll_ids s = map fst (filter (\<lambda>(i, cb). is_poll cb) (intervals s))"

definition track_ids :: "app_state \<Rightarrow> nat list" where
  "track_ids s = map fst (filter (\<lambda>(i, cb). \<not> is_poll cb) (intervals s))"

definition eta_of :: "nat \<Rightarrow> app_state \<Rightarrow> jsval option" where
  "eta_of i s =
     (case map_of (intervals s) i of
        Some (Track eta) \<Rightarrow> Some eta
      | other \<Rightarrow> None)"

definition ticks :: "env \<Rightarrow> nat \<Rightarrow> nat \<Rightarrow> app_state \<Rightarrow> app_state" where
  "ticks e i k s = run e (replicate k (Tick i)) s"

text \<open>
  Every scheduled interval is the one its reference holds, and a polling interval
  is scheduled only for a driver who is online.
\<close>

definition timers_owned :: "app_state \<Rightarrow> bool" where
  "timers_owned s \<longleftrightarrow>
     (\<forall>i \<in> set (poll_ids s). driverRequestIntervalRef s = Some i) \<and>
     (\<forall>i \<in> set (track_ids s). rideTrackingIntervalRef s = Some i) \<and>
     (driverStatus s \<noteq> Online \<longrightarrow> poll_ids s = [])"

text \<open>The text of the fragments of a stream, one after the other.\<close>

definition fragments_text :: "jsstring option list \<Rightarrow> jsstring" where
  "fragments_text chunks = concat (map (\<lambda>c. case c of None \<Rightarrow> [] | Some t \<Rightarrow> t) chunks)"

text \<open>
  The two halves of the ownership, and what a handler hands to the render that
  follows it.
\<close>

definition poll_owned :: "app_state \<Rightarrow> bool" where
  "poll_owned s \<longleftrightarrow> (\<forall>i \<in> set (poll_ids s). driverRequestIntervalRef s = Some i)"

definition track_owned :: "app_state \<Rightarrow> bool" where
  "track_owned s \<longleftrightarrow> (\<forall>i \<in> set (track_ids s). rideTrackingIntervalRef s = Some i)"

definition keeps_timers :: "app_state \<Rightarrow> app_state \<Rightarrow> bool" where
  "keeps_timers s s' \<longleftrightarrow>
     poll_owned s' \<and> track_owned s' \<and> (poll_ids s = [] \<longrightarrow> poll_ids s' = [])"

text \<open>
  The offer fits the driver's status: a pending request has an offer, a driver
  who is offline has none; and the same with no offer for a driver who is online
  or has completed a ride, and with a fare that line 387 can print.
\<close>

definition offer_fits :: "app_state \<Rightarrow> bool" where
  "offer_fits s \<longleftrightarrow>
     (driverStatus s = Request_pending \<longrightarrow> currentRideOffer s \<noteq> None) \<and>
     (driverStatus s = Offline \<longrightarrow> currentRideOffer s = None)"

definition offer_fits_online :: "app_state \<Rightarrow> bool" where
  "offer_fits_online s \<longleftrightarrow>
     offer_fits s \<and>
     (driverStatus s = Online \<longrightarrow> currentRideOffer s = None) \<and>
     (driverStatus s = Ride_completed \<longrightarrow> currentRideOffer s = None) \<and>
     fare_fixed (currentRideOffer s) \<noteq> Inl TypeError"


section \<open>What the timers and the rendering leave alone\<close>

lemma clearInterval_fields [simp]:
  "userMode (clearInterval i s) = userMode s"
  "currentLocation (clearInterval i s) = currentLocation s"
  "pickupLocation (clearInterval i s) = pickupLocation s"
  "destination (clearInterval i s) = destination s"
  "vehicleType (clearInterval i s) = vehicleType s"
  "paymentMethod (clearInterval i s) = paymentMethod s"
  "driverStatus (clearInterval i s) = driverStatus s"
  "currentRideOffer (clearInterval i s) = currentRideOffer s"
  "passengerRideStatus (clearInterval i s) = passengerRideStatus s"
  "apiResponse (clearInterval i s) = apiResponse s"
  "error (clearInterval i s) = error s"
  "loading (clearInterval i s) = loading s"
  "isOnline (clearInterval i s) = isOnline s"
  "isChatOpen (clearInterval i s) = isChatOpen s"
  "chatMessages (clearInterval i s) = chatMessages s"
  "chatInput (clearInterval i s) = chatInput s"
  "chatRef (clearInterval i s) = chatRef s"
  "driverRequestIntervalRef (clearInterval i s) = driverRequestIntervalRef s"
  "rideTrackingIntervalRef (clearInterval i s) = rideTrackingIntervalRef s"
  "next_interval (clearInterval i s) = next_interval s"
  "next_offer (clearInterval i s) = next_offer s"
  "pending_find (clearInterval i s) = pending_find s"
  "pending_poll (clearInterval i s) = pending_poll s"
  "pending_geo (clearInterval i s) = pending_geo s"
  "pending_chat (clearInterval i s) = pending_chat s"
  by (simp_all add: clearInterval_def)

text \<open>The effects of the timers change the two references and the interval table only.\<close>

lemma timer_effects_fields [simp]:
  "userMode (timer_effects prev s) = userMode s"
  "currentLocation (timer_effects prev s) = currentLocation s"
  "pickupLocation (timer_effects prev s) = pickupLocation s"
  "destination (timer_effects prev s) = destination s"
  "vehicleType (timer_effects prev s) = vehicleType s"
  "paymentMethod (timer_effects prev s) = paymentMethod s"
  "driverStatus (timer_effects prev s) = driverStatus s"
  "currentRideOffer (timer_effects prev s) = currentRideOffer s"
  "passengerRideStatus (timer_effects prev s) = passengerRideStatus s"
  "apiResponse (timer_effects prev s) = apiResponse s"
  "error (timer_effects prev s) = error s"
  "loading (timer_effects prev s) = loading s"
  "isOnline (timer_effects prev s) = isOnline s"
  "isChatOpen (timer_effects prev s) = isChatOpen s"
  "chatMessages (timer_effects prev s) = chatMessages s"
  "chatInput (timer_effects prev s) = chatInput s"
  "chatRef (timer_effects prev s) = chatRef s"
  "next_offer (timer_effects prev s) = next_offer s"
  "pending_find (timer_effects prev s) = pending_find s"
  "pending_poll (timer_effects prev s) = pending_poll s"
  "pending_geo (timer_effects prev s) = pending_geo s"
  "pending_chat (timer_effects prev s) = pending_chat s"
  by (simp_all add: timer_effects_def polling_effect_def polling_cleanup_def tracking_effect_def
      tracking_cleanup_def setInterval_def Let_def split: option.splits)

lemma render_fields [simp]:
  "userMode (render e prev s) = userMode s"
  "destination (render e prev s) = destination s"
  "vehicleType (render e prev s) = vehicleType s"
  "paymentMethod (render e prev s) = paymentMethod s"
  "driverStatus (render e prev s) = driverStatus s"
  "currentRideOffer (render e prev s) = currentRideOffer s"
  "passengerRideStatus (render e prev s) = passengerRideStatus s"
  "apiResponse (render e prev s) = apiResponse s"
  "isOnline (render e prev s) = isOnline s"
  "isChatOpen (render e prev s) = isChatOpen s"
  "chatMessages (render e prev s) = chatMessages s"
  "chatInput (render e prev s) = chatInput s"
  "chatRef (render e prev s) = chatRef s"
  "next_offer (render e prev s) = next_offer s"
  "pending_find (render e prev s) = pending_find s"
  "pending_poll (render e prev s) = pending_poll s"
  "pending_chat (render e prev s) = pending_chat s"
  by (simp_all add: render_def geolocation_effect_def Let_def)

lemma render_same_connection:
  "isOnline cur = isOnline prev \<Longrightarrow> render e prev cur = timer_effects prev cur"
  by (simp add: render_def Let_def)

lemma reachable_run:
  "reachable_by allowed e s \<Longrightarrow> \<forall>ev \<in> set evs. allowed ev \<Longrightarrow>
   reachable_by allowed e (run e evs s)"
proof (induction evs arbitrary: s)
  case Nil
  then show ?case by (simp add: run_def)
next
  case (Cons ev evs)
  from Cons.prems have "reachable_by allowed e (step e ev s)"
    by (simp add: reachable_by.after_step)
  with Cons show ?case by (simp add: run_def)
qed

section \<open>The intervals belong to their references\<close>

text \<open>
  In every state that can be reached, a scheduled interval is the one its
  reference holds, and no polling interval is scheduled unless the driver is
  online. The cleanup of an effect clears the interval of the reference before
  the body may schedule a new one.
\<close>

lemma set_poll_ids: "set (poll_ids s) = {i. \<exists>c. (i, Poll c) \<in> set (intervals s)}"
proof -
  have "\<And>cb. is_poll cb \<longleftrightarrow> (\<exists>c. cb = Poll c)"
    by (case_tac cb) auto
  then show ?thesis by (force simp: poll_ids_def)
qed

lemma set_track_ids: "set (track_ids s) = {i. \<exists>eta. (i, Track eta) \<in> set (intervals s)}"
proof -
  have "\<And>cb. \<not> is_poll cb \<longleftrightarrow> (\<exists>eta. cb = Track eta)"
    by (case_tac cb) auto
  then show ?thesis by (force simp: track_ids_def)
qed

lemma poll_ids_clearInterval [simp]:
  "poll_ids (clearInterval i s) = filter (\<lambda>j. j \<noteq> i) (poll_ids s)"
proof -
  have "(\<lambda>x. fst x \<noteq> i \<and> is_poll (snd x)) = (\<lambda>x. is_poll (snd x) \<and> fst x \<noteq> i)"
    by auto
  then show ?thesis
    by (simp add: poll_ids_def clearInterval_def filter_map comp_def split_def)
qed

lemma track_ids_clearInterval [simp]:
  "track_ids (clearInterval i s) = filter (\<lambda>j. j \<noteq> i) (track_ids s)"
proof -
  have "(\<lambda>x. fst x \<noteq> i \<and> \<not> is_poll (snd x)) = (\<lambda>x. \<not> is_poll (snd x) \<and> fst x \<noteq> i)"
    by auto
  then show ?thesis
    by (simp add: track_ids_def clearInterval_def filter_map comp_def split_def)
qed

lemma intervals_updates [simp]:
  "poll_ids (s\<lparr>driverRequestIntervalRef := r\<rparr>) = poll_ids s"
  "poll_ids (s\<lparr>rideTrackingIntervalRef := r\<rparr>) = poll_ids s"
  "track_ids (s\<lparr>driverRequestIntervalRef := r\<rparr>) = track_ids s"
  "track_ids (s\<lparr>rideTrackingIntervalRef := r\<rparr>) = track_ids s"
  by (simp_all add: poll_ids_def track_ids_def)

lemma ids_setInterval [simp]:
  "poll_ids (snd (setInterval (Poll c) s)) = poll_ids s @ [next_interval s]"
  "track_ids (snd (setInterval (Poll c) s)) = track_ids s"
  "poll_ids (snd (setInterval (Track eta) s)) = poll_ids s"
  "track_ids (snd (setInterval (Track eta) s)) = track_ids s @ [next_interval s]"
  by (simp_all add: poll_ids_def track_ids_def setInterval_def)

lemma setInterval_fields [simp]:
  "fst (setInterval cb s) = next_interval s"
  "userMode (snd (setInterval cb s)) = userMode s"
  "currentLocation (snd (setInterval cb s)) = currentLocation s"
  "pickupLocation (snd (setInterval cb s)) = pickupLocation s"
  "destination (snd (setInterval cb s)) = destination s"
  "vehicleType (snd (setInterval cb s)) = vehicleType s"
  "paymentMethod (snd (setInterval cb s)) = paymentMethod s"
  "driverStatus (snd (setInterval cb s)) = driverStatus s"
  "currentRideOffer (snd (setInterval cb s)) = currentRideOffer s"
  "passengerRideStatus (snd (setInterval cb s)) = passengerRideStatus s"
  "apiResponse (snd (setInterval cb s)) = apiResponse s"
  "error (snd (setInterval cb s)) = error s"
  "loading (snd (setInterval cb s)) = loading s"
  "isOnline (snd (setInterval cb s)) = isOnline s"
  "isChatOpen (snd (setInterval cb s)) = isChatOpen s"
  "chatMessages (snd (setInterval cb s)) = chatMessages s"
  "chatInput (snd (setInterval cb s)) = chatInput s"
  "chatRef (snd (setInterval cb s)) = chatRef s"
  "driverRequestIntervalRef (snd (setInterval cb s)) = driverRequestIntervalRef s"
  "rideTrackingIntervalRef (snd (setInterval cb s)) = rideTrackingIntervalRef s"
  "next_offer (snd (setInterval cb s)) = next_offer s"
  "pending_find (snd (setInterval cb s)) = pending_find s"
  "pending_poll (snd (setInterval cb s)) = pending_poll s"
  "pending_geo (snd (setInterval cb s)) = pending_geo s"
  "pending_chat (snd (setInterval cb s)) = pending_chat s"
  by (simp_all add: setInterval_def)

lemma owned_nil [simp]:
  "poll_ids s = [] \<Longrightarrow> poll_owned s"
  "track_ids s = [] \<Longrightarrow> track_owned s"
  by (simp_all add: poll_owned_def track_owned_def)

lemma poll_owned_by_none:
  "poll_owned s \<Longrightarrow> driverRequestIntervalRef s = None \<Longrightarrow> poll_ids s = []"
  by (cases "poll_ids s") (auto simp: poll_owned_def)

lemma track_owned_by_none:
  "track_owned s \<Longrightarrow> rideTrackingIntervalRef s = None \<Longrightarrow> track_ids s = []"
  by (cases "track_ids s") (auto simp: track_owned_def)

lemmas owned_by_none = poll_owned_by_none track_owned_by_none

lemma owned_cleared:
  "poll_owned s \<Longrightarrow> driverRequestIntervalRef s = Some i \<Longrightarrow> filter (\<lambda>j. j \<noteq> i) (poll_ids s) = []"
  "track_owned s \<Longrightarrow> rideTrackingIntervalRef s = Some i \<Longrightarrow> filter (\<lambda>j. j \<noteq> i) (track_ids s) = []"
  by (auto simp: poll_owned_def track_owned_def filter_empty_conv)

lemma polling_cleanup_poll:
  "poll_owned s \<Longrightarrow> poll_ids (polling_cleanup s) = []"
  by (cases "driverRequestIntervalRef s")
     (simp_all add: polling_cleanup_def owned_by_none owned_cleared)

lemma polling_cleanup_track:
  "track_owned s \<Longrightarrow> track_owned (polling_cleanup s)"
  "track_ids s = [] \<Longrightarrow> track_ids (polling_cleanup s) = []"
  by (cases "driverRequestIntervalRef s"; simp add: polling_cleanup_def track_owned_def)+

lemma polling_cleanup_status [simp]:
  "driverStatus (polling_cleanup s) = driverStatus s"
  "passengerRideStatus (polling_cleanup s) = passengerRideStatus s"
  by (cases "driverRequestIntervalRef s"; simp add: polling_cleanup_def)+

lemma tracking_cleanup_track:
  "track_owned s \<Longrightarrow> track_ids (tracking_cleanup s) = []"
  by (cases "rideTrackingIntervalRef s")
     (simp_all add: tracking_cleanup_def owned_by_none owned_cleared)

lemma tracking_cleanup_poll:
  "poll_owned s \<Longrightarrow> poll_owned (tracking_cleanup s)"
  "poll_ids s = [] \<Longrightarrow> poll_ids (tracking_cleanup s) = []"
  by (cases "rideTrackingIntervalRef s"; simp add: tracking_cleanup_def poll_owned_def)+

lemma tracking_cleanup_status [simp]:
  "driverStatus (tracking_cleanup s) = driverStatus s"
  "passengerRideStatus (tracking_cleanup s) = passengerRideStatus s"
  by (cases "rideTrackingIntervalRef s"; simp add: tracking_cleanup_def)+

lemma polling_effect_cases:
  "polling_effect s =
     (if driverStatus s = Online
      then (case driverRequestIntervalRef s of
              None \<Rightarrow> (snd (setInterval (Poll \<lparr>cl_driverStatus = driverStatus s,
                        cl_isOnline = isOnline s, cl_loading = loading s,
                        cl_hasOffer = (currentRideOffer s \<noteq> None)\<rparr>) s))
                      \<lparr>driverRequestIntervalRef := Some (next_interval s)\<rparr>
            | Some i \<Rightarrow> s)
      else (case driverRequestIntervalRef s of
              None \<Rightarrow> s
            | Some i \<Rightarrow> (clearInterval i s)\<lparr>driverRequestIntervalRef := None\<rparr>))"
  by (simp add: polling_effect_def split_def split: option.splits)

lemma tracking_effect_cases:
  "tracking_effect s =
     (if passengerRideStatus s = Some Tracking
      then (snd (setInterval (Track (initial_eta (currentRideOffer s))) s))
             \<lparr>rideTrackingIntervalRef := Some (next_interval s)\<rparr>
      else (case rideTrackingIntervalRef s of
              None \<Rightarrow> s
            | Some i \<Rightarrow> (clearInterval i s)\<lparr>rideTrackingIntervalRef := None\<rparr>))"
  by (simp add: tracking_effect_def split_def)

lemma polling_effect_poll:
  "poll_ids s = [] \<Longrightarrow> poll_owned (polling_effect s)"
  "poll_ids s = [] \<Longrightarrow> driverStatus s \<noteq> Online \<Longrightarrow> poll_ids (polling_effect s) = []"
  by (cases "driverRequestIntervalRef s"; simp add: polling_effect_cases poll_owned_def)+

lemma polling_effect_track:
  "track_owned s \<Longrightarrow> track_owned (polling_effect s)"
  "track_ids s = [] \<Longrightarrow> track_ids (polling_effect s) = []"
  by (cases "driverRequestIntervalRef s"; simp add: polling_effect_cases track_owned_def)+

lemma polling_effect_status [simp]:
  "driverStatus (polling_effect s) = driverStatus s"
  "passengerRideStatus (polling_effect s) = passengerRideStatus s"
  by (cases "driverRequestIntervalRef s"; simp add: polling_effect_cases)+

lemma tracking_effect_track:
  "track_ids s = [] \<Longrightarrow> track_owned (tracking_effect s)"
  by (cases "rideTrackingIntervalRef s"; simp add: tracking_effect_cases track_owned_def)

lemma tracking_effect_poll:
  "poll_owned s \<Longrightarrow> poll_owned (tracking_effect s)"
  "poll_ids s = [] \<Longrightarrow> poll_ids (tracking_effect s) = []"
  by (cases "rideTrackingIntervalRef s"; simp add: tracking_effect_cases poll_owned_def)+

lemma tracking_effect_status [simp]:
  "driverStatus (tracking_effect s) = driverStatus s"
  by (cases "rideTrackingIntervalRef s"; simp add: tracking_effect_cases)

lemma timers_owned_iff:
  "timers_owned s \<longleftrightarrow>
     poll_owned s \<and> track_owned s \<and> (driverStatus s \<noteq> Online \<longrightarrow> poll_ids s = [])"
  by (auto simp: timers_owned_def poll_owned_def track_owned_def)

lemma timer_effects_owned:
  assumes p: "poll_owned cur" and t: "track_owned cur"
    and k: "\<not> polling_deps_changed prev cur \<Longrightarrow> driverStatus cur \<noteq> Online \<Longrightarrow> poll_ids cur = []"
  shows "timers_owned (timer_effects prev cur)"
proof (cases "polling_deps_changed prev cur")
  case pc: True
  let ?s1 = "polling_cleanup cur"
  have s1: "poll_ids ?s1 = []" "track_owned ?s1"
    using p t by (simp_all add: polling_cleanup_poll polling_cleanup_track)
  show ?thesis
  proof (cases "tracking_deps_changed prev cur")
    case True
    let ?s2 = "tracking_cleanup ?s1"
    have s2: "poll_ids ?s2 = []" "track_ids ?s2 = []"
      using s1 by (simp_all add: tracking_cleanup_poll tracking_cleanup_track)
    let ?s3 = "polling_effect ?s2"
    have s3: "poll_owned ?s3" "track_ids ?s3 = []"
      "driverStatus ?s3 \<noteq> Online \<Longrightarrow> poll_ids ?s3 = []"
      using s2 by (simp_all add: polling_effect_poll polling_effect_track)
    have "timers_owned (tracking_effect ?s3)"
      unfolding timers_owned_iff using s3
      by (simp add: tracking_effect_poll tracking_effect_track)
    with pc True show ?thesis by (simp add: timer_effects_def)
  next
    case False
    have "timers_owned (polling_effect ?s1)"
      unfolding timers_owned_iff using s1
      by (simp add: polling_effect_poll polling_effect_track)
    with pc False show ?thesis by (simp add: timer_effects_def)
  qed
next
  case npc: False
  show ?thesis
  proof (cases "tracking_deps_changed prev cur")
    case True
    let ?s2 = "tracking_cleanup cur"
    have s2: "track_ids ?s2 = []" "poll_owned ?s2"
      "driverStatus cur \<noteq> Online \<Longrightarrow> poll_ids ?s2 = []"
      using p t k [OF npc] by (simp_all add: tracking_cleanup_poll tracking_cleanup_track)
    have "timers_owned (tracking_effect ?s2)"
      unfolding timers_owned_iff using s2
      by (simp add: tracking_effect_poll tracking_effect_track)
    with npc True show ?thesis by (simp add: timer_effects_def)
  next
    case False
    with npc p t k show ?thesis by (simp add: timer_effects_def timers_owned_iff)
  qed
qed

text \<open>The handlers that leave the intervals and the two references alone.\<close>

lemma handleFindRide_call_timers [simp]:
  "intervals (handleFindRide_call s) = intervals s"
  "driverRequestIntervalRef (handleFindRide_call s) = driverRequestIntervalRef s"
  "rideTrackingIntervalRef (handleFindRide_call s) = rideTrackingIntervalRef s"
  by (simp_all add: handleFindRide_call_def Let_def)

lemma handleFindRide_settle_timers [simp]:
  "intervals (handleFindRide_settle e req r s) = intervals s"
  "driverRequestIntervalRef (handleFindRide_settle e req r s) = driverRequestIntervalRef s"
  "rideTrackingIntervalRef (handleFindRide_settle e req r s) = rideTrackingIntervalRef s"
  by (simp_all add: handleFindRide_settle_def find_ride_unparsed_def Let_def split: ai_result.splits option.splits sum.splits)

lemma handlePassengerAcceptRide_timers [simp]:
  "intervals (handlePassengerAcceptRide s) = intervals s"
  "driverRequestIntervalRef (handlePassengerAcceptRide s) = driverRequestIntervalRef s"
  "rideTrackingIntervalRef (handlePassengerAcceptRide s) = rideTrackingIntervalRef s"
  by (simp_all add: handlePassengerAcceptRide_def Let_def split: option.splits)

lemma handlePassengerCancelRide_timers [simp]:
  "intervals (handlePassengerCancelRide s) = intervals s"
  "driverRequestIntervalRef (handlePassengerCancelRide s) = driverRequestIntervalRef s"
  "rideTrackingIntervalRef (handlePassengerCancelRide s) = rideTrackingIntervalRef s"
  by (simp_all add: handlePassengerCancelRide_def)

lemma handlePassengerCompleteRide_timers [simp]:
  "intervals (handlePassengerCompleteRide s) = intervals s"
  "driverRequestIntervalRef (handlePassengerCompleteRide s) = driverRequestIntervalRef s"
  "rideTrackingIntervalRef (handlePassengerCompleteRide s) = rideTrackingIntervalRef s"
  by (simp_all add: handlePassengerCompleteRide_def)

lemma handleDriverToggleOnline_timers [simp]:
  "intervals (handleDriverToggleOnline s) = intervals s"
  "driverRequestIntervalRef (handleDriverToggleOnline s) = driverRequestIntervalRef s"
  "rideTrackingIntervalRef (handleDriverToggleOnline s) = rideTrackingIntervalRef s"
  by (simp_all add: handleDriverToggleOnline_def Let_def)

lemma handleDriverAcceptRide_timers [simp]:
  "intervals (handleDriverAcceptRide s) = intervals s"
  "driverRequestIntervalRef (handleDriverAcceptRide s) = driverRequestIntervalRef s"
  "rideTrackingIntervalRef (handleDriverAcceptRide s) = rideTrackingIntervalRef s"
  by (simp_all add: handleDriverAcceptRide_def Let_def split: option.splits)

lemma handleDriverDeclineRide_timers [simp]:
  "intervals (handleDriverDeclineRide s) = intervals s"
  "driverRequestIntervalRef (handleDriverDeclineRide s) = driverRequestIntervalRef s"
  "rideTrackingIntervalRef (handleDriverDeclineRide s) = rideTrackingIntervalRef s"
  by (simp_all add: handleDriverDeclineRide_def)

lemma handleDriverCompleteRide_timers [simp]:
  "intervals (handleDriverCompleteRide s) = intervals s"
  "driverRequestIntervalRef (handleDriverCompleteRide s) = driverRequestIntervalRef s"
  "rideTrackingIntervalRef (handleDriverCompleteRide s) = rideTrackingIntervalRef s"
  by (simp_all add: handleDriverCompleteRide_def Let_def split: sum.splits)

lemma goOnlineAgain_timers [simp]:
  "intervals (goOnlineAgain s) = intervals s"
  "driverRequestIntervalRef (goOnlineAgain s) = driverRequestIntervalRef s"
  "rideTrackingIntervalRef (goOnlineAgain s) = rideTrackingIntervalRef s"
  by (simp_all add: goOnlineAgain_def)

lemma simulateDriverActivity_call_timers [simp]:
  "intervals (simulateDriverActivity_call c s) = intervals s"
  "driverRequestIntervalRef (simulateDriverActivity_call c s) = driverRequestIntervalRef s"
  "rideTrackingIntervalRef (simulateDriverActivity_call c s) = rideTrackingIntervalRef s"
  by (simp_all add: simulateDriverActivity_call_def)

lemma simulateDriverActivity_settle_timers [simp]:
  "intervals (simulateDriverActivity_settle e r s) = intervals s"
  "driverRequestIntervalRef (simulateDriverActivity_settle e r s) = driverRequestIntervalRef s"
  "rideTrackingIntervalRef (simulateDriverActivity_settle e r s) = rideTrackingIntervalRef s"
  by (simp_all add: simulateDriverActivity_settle_def Let_def split: ai_result.splits option.splits sum.splits jsval.splits)

lemma initializeChat_timers [simp]:
  "intervals (initializeChat e s) = intervals s"
  "driverRequestIntervalRef (initializeChat e s) = driverRequestIntervalRef s"
  "rideTrackingIntervalRef (initializeChat e s) = rideTrackingIntervalRef s"
  by (simp_all add: initializeChat_def)

lemma handleToggleChat_timers [simp]:
  "intervals (handleToggleChat e s) = intervals s"
  "driverRequestIntervalRef (handleToggleChat e s) = driverRequestIntervalRef s"
  "rideTrackingIntervalRef (handleToggleChat e s) = rideTrackingIntervalRef s"
  by (simp_all add: handleToggleChat_def initializeChat_def Let_def)

lemma handleSendChatMessage_call_timers [simp]:
  "intervals (handleSendChatMessage_call e s) = intervals s"
  "driverRequestIntervalRef (handleSendChatMessage_call e s) = driverRequestIntervalRef s"
  "rideTrackingIntervalRef (handleSendChatMessage_call e s) = rideTrackingIntervalRef s"
  by (simp_all add: handleSendChatMessage_call_def initializeChat_def Let_def split: option.splits)

lemma position_found_timers [simp]:
  "intervals (position_found l s) = intervals s"
  "driverRequestIntervalRef (position_found l s) = driverRequestIntervalRef s"
  "rideTrackingIntervalRef (position_found l s) = rideTrackingIntervalRef s"
  by (simp_all add: position_found_def)

lemma position_failed_timers [simp]:
  "intervals (position_failed m s) = intervals s"
  "driverRequestIntervalRef (position_failed m s) = driverRequestIntervalRef s"
  "rideTrackingIntervalRef (position_failed m s) = rideTrackingIntervalRef s"
  by (simp_all add: position_failed_def)

lemma geolocation_effect_timers [simp]:
  "intervals (geolocation_effect e s) = intervals s"
  "driverRequestIntervalRef (geolocation_effect e s) = driverRequestIntervalRef s"
  "rideTrackingIntervalRef (geolocation_effect e s) = rideTrackingIntervalRef s"
  by (simp_all add: geolocation_effect_def)

lemma ids_cong:
  "intervals s' = intervals s \<Longrightarrow> poll_ids s' = poll_ids s"
  "intervals s' = intervals s \<Longrightarrow> track_ids s' = track_ids s"
  by (simp_all add: poll_ids_def track_ids_def)

lemma owned_cong:
  "intervals s' = intervals s \<Longrightarrow> driverRequestIntervalRef s' = driverRequestIntervalRef s \<Longrightarrow>
   poll_owned s' = poll_owned s"
  "intervals s' = intervals s \<Longrightarrow> rideTrackingIntervalRef s' = rideTrackingIntervalRef s \<Longrightarrow>
   track_owned s' = track_owned s"
  by (simp_all add: poll_owned_def track_owned_def poll_ids_def track_ids_def)

lemma no_ids_no_intervals:
  "poll_ids s = [] \<Longrightarrow> track_ids s = [] \<Longrightarrow> intervals s = []"
  by (cases "intervals s") (auto simp: poll_ids_def track_ids_def split: if_splits)

lemma reset_clears_intervals:
  assumes "poll_owned s" "track_owned s"
  shows "intervals (resetAppState s) = []"
proof -
  let ?s1 = "s\<lparr>userMode := Mode_none, pickupLocation := JStr (currentLocation s),
                 destination := JStr [], driverStatus := Offline,
                 passengerRideStatus := None, currentRideOffer := None,
                 apiResponse := Empty_text, error := Empty_text, loading := False\<rparr>"
  have o1: "poll_owned ?s1" "track_owned ?s1"
    using assms by (simp_all add: poll_owned_def track_owned_def poll_ids_def track_ids_def)
  let ?s2 = "case driverRequestIntervalRef ?s1 of None \<Rightarrow> ?s1
             | Some i \<Rightarrow> (clearInterval i ?s1)\<lparr>driverRequestIntervalRef := None\<rparr>"
  have p2: "poll_ids ?s2 = []"
    using o1(1) by (cases "driverRequestIntervalRef s") (simp_all add: owned_by_none owned_cleared)
  have t2: "track_owned ?s2"
    using o1(2) by (cases "driverRequestIntervalRef s") (simp_all add: track_owned_def)
  let ?s3 = "case rideTrackingIntervalRef ?s2 of None \<Rightarrow> ?s2
             | Some i \<Rightarrow> (clearInterval i ?s2)\<lparr>rideTrackingIntervalRef := None\<rparr>"
  have p3: "poll_ids ?s3 = []"
    using p2 by (cases "rideTrackingIntervalRef ?s2") simp_all
  have t3: "track_ids ?s3 = []"
    using t2 by (cases "rideTrackingIntervalRef ?s2") (simp_all add: owned_by_none owned_cleared)
  have "resetAppState s = ?s3"
    by (simp add: resetAppState_def Let_def)
  with p3 t3 show ?thesis by (simp add: no_ids_no_intervals)
qed

lemma keeps_timers_frame:
  assumes "timers_owned s" "intervals s' = intervals s"
    "driverRequestIntervalRef s' = driverRequestIntervalRef s"
    "rideTrackingIntervalRef s' = rideTrackingIntervalRef s"
  shows "keeps_timers s s'"
  using assms owned_cong [of s' s] ids_cong [of s' s]
  by (simp add: keeps_timers_def timers_owned_iff)

lemma set_eta_poll:
  "(j, Poll c) \<in> set (set_eta i v tab) \<Longrightarrow> (j, Poll c) \<in> set tab"
  by (auto simp: set_eta_def split: if_splits)

lemma set_eta_track:
  "(j, Track x) \<in> set (set_eta i v tab) \<Longrightarrow> j = i \<or> (j, Track x) \<in> set tab"
  by (auto simp: set_eta_def split: if_splits)

lemma map_of_track_id:
  "map_of (intervals s) i = Some (Track eta) \<Longrightarrow> i \<in> set (track_ids s)"
  by (force simp: track_ids_def dest: map_of_SomeD)

lemma keeps_timers_arrived:
  assumes "timers_owned s"
  shows "keeps_timers s (tracking_arrived s)"
proof -
  from assms have o: "poll_owned s" "track_owned s"
    by (simp_all add: timers_owned_iff)
  show ?thesis
  proof (cases "rideTrackingIntervalRef s")
    case None
    with o show ?thesis
      by (simp add: keeps_timers_def tracking_arrived_def poll_owned_def track_owned_def
          poll_ids_def track_ids_def)
  next
    case (Some j)
    let ?c = "clearInterval j s"
    have "poll_owned ?c" "track_owned ?c" "poll_ids s = [] \<longrightarrow> poll_ids ?c = []"
      using o by (simp_all add: poll_owned_def track_owned_def)
    moreover have "tracking_arrived s =
        ?c\<lparr>apiResponse := Msg_driver_arrived, passengerRideStatus := Some Completed\<rparr>"
      using Some by (simp add: tracking_arrived_def)
    ultimately show ?thesis
      by (simp add: keeps_timers_def poll_owned_def track_owned_def poll_ids_def track_ids_def)
  qed
qed

lemma keeps_timers_tick:
  assumes own: "timers_owned s" and i: "map_of (intervals s) i = Some (Track eta)"
  shows "keeps_timers s (tracking_tick e i eta s)"
proof -
  from own have o: "poll_owned s" "track_owned s"
    by (simp_all add: timers_owned_iff)
  have dec: "keeps_timers s (s\<lparr>intervals := set_eta i v (intervals s), apiResponse := a\<rparr>)" for v a
  proof -
    let ?s' = "s\<lparr>intervals := set_eta i v (intervals s), apiResponse := a\<rparr>"
    have p: "set (poll_ids ?s') \<subseteq> set (poll_ids s)"
      by (auto simp: set_poll_ids dest: set_eta_poll)
    have t: "set (track_ids ?s') \<subseteq> insert i (set (track_ids s))"
      by (auto simp: set_track_ids dest: set_eta_track)
    have "i \<in> set (track_ids s)"
      using i by (rule map_of_track_id)
    with o(2) have r: "rideTrackingIntervalRef s = Some i"
      by (simp add: track_owned_def)
    have "poll_owned ?s'"
      using p o(1) by (auto simp: poll_owned_def)
    moreover have "track_owned ?s'"
      using t o(2) r by (auto simp: track_owned_def)
    moreover have "poll_ids s = [] \<longrightarrow> poll_ids ?s' = []"
      using p by auto
    ultimately show ?thesis by (simp add: keeps_timers_def)
  qed
  show ?thesis
  proof (cases "numeric e eta")
    case (Inl err)
    with own show ?thesis
      by (simp add: tracking_tick_def keeps_timers_def timers_owned_iff)
  next
    case (Inr n)
    show ?thesis
    proof (cases n)
      case None
      with Inr keeps_timers_arrived [OF own] show ?thesis by (simp add: tracking_tick_def)
    next
      case (Some x)
      with Inr keeps_timers_arrived [OF own] dec show ?thesis by (simp add: tracking_tick_def)
    qed
  qed
qed

lemma keeps_timers_reset:
  assumes "timers_owned s"
  shows "keeps_timers s (resetAppState s)"
proof -
  from assms have "intervals (resetAppState s) = []"
    by (simp add: reset_clears_intervals timers_owned_iff)
  then show ?thesis
    by (simp add: keeps_timers_def poll_owned_def track_owned_def poll_ids_def track_ids_def)
qed

lemma keeps_timers_handle:
  assumes own: "timers_owned s"
  shows "keeps_timers s (handle e ev s)"
proof (cases ev)
  case Reset
  with keeps_timers_reset [OF own] show ?thesis by simp
next
  case (Tick i)
  show ?thesis
  proof (cases "map_of (intervals s) i")
    case None
    with Tick own show ?thesis by (simp add: keeps_timers_def timers_owned_iff)
  next
    case (Some cb)
    show ?thesis
    proof (cases cb)
      case (Poll c)
      with Tick Some show ?thesis
        by (simp add: keeps_timers_frame [OF own])
    next
      case (Track eta)
      with Tick Some keeps_timers_tick [OF own, of i eta e] show ?thesis by simp
    qed
  qed
next
  case (Stream_chunk k c)
  then show ?thesis
    by (cases "pending_chat s ! k")
       (simp_all add: keeps_timers_frame [OF own] split_def Let_def)
qed (simp_all add: keeps_timers_frame [OF own])

lemma render_owned:
  assumes p: "poll_owned cur" and t: "track_owned cur"
    and k: "\<not> polling_deps_changed prev cur \<Longrightarrow> driverStatus cur \<noteq> Online \<Longrightarrow> poll_ids cur = []"
  shows "timers_owned (render e prev cur)"
proof -
  let ?s = "timer_effects prev cur"
  have s: "timers_owned ?s"
    using p t k by (rule timer_effects_owned)
  let ?g = "geolocation_effect e ?s"
  have "poll_owned ?g = poll_owned ?s" "track_owned ?g = track_owned ?s"
    "poll_ids ?g = poll_ids ?s"
    using owned_cong [of ?g ?s] ids_cong [of ?g ?s] by simp_all
  moreover have "driverStatus ?g = driverStatus ?s"
    by (simp add: geolocation_effect_def)
  ultimately have "timers_owned (timer_effects ?s ?g)"
    using s by (intro timer_effects_owned) (simp_all add: timers_owned_iff)
  with s show ?thesis by (simp add: render_def Let_def)
qed

lemma polling_deps_status:
  "\<not> polling_deps_changed prev cur \<Longrightarrow> driverStatus cur = driverStatus prev"
  by (simp add: polling_deps_changed_def)

lemma step_owned:
  assumes own: "timers_owned s"
  shows "timers_owned (render e s (handle e ev s))"
proof -
  from keeps_timers_handle [OF own, of e ev]
  have h: "poll_owned (handle e ev s)" "track_owned (handle e ev s)"
    "poll_ids s = [] \<Longrightarrow> poll_ids (handle e ev s) = []"
    by (simp_all add: keeps_timers_def)
  show ?thesis
  proof (rule render_owned [OF h(1) h(2)])
    assume "\<not> polling_deps_changed s (handle e ev s)" "driverStatus (handle e ev s) \<noteq> Online"
    then have "driverStatus s \<noteq> Online"
      by (simp add: polling_deps_status)
    with own have "poll_ids s = []"
      by (simp add: timers_owned_iff)
    then show "poll_ids (handle e ev s) = []" by (rule h(3))
  qed
qed

lemma mounted_owned: "timers_owned (mounted e onLine)"
proof -
  let ?s = "tracking_effect (polling_effect (initial onLine))"
  have i: "intervals ?s = []" "driverStatus ?s = Offline"
    by (simp_all add: initial_def polling_effect_cases tracking_effect_cases)
  let ?g = "geolocation_effect e ?s"
  have "intervals ?g = []" "driverStatus ?g = Offline"
    using i by (simp_all add: geolocation_effect_def)
  then have "poll_owned ?g" "track_owned ?g" "poll_ids ?g = []"
    by (simp_all add: poll_owned_def track_owned_def poll_ids_def track_ids_def)
  then have "timers_owned (timer_effects ?s ?g)"
    by (intro timer_effects_owned) simp_all
  then show ?thesis by (simp add: mounted_def Let_def)
qed

lemma reachable_owned:
  "reachable_by allowed e s \<Longrightarrow> timers_owned s"
proof (induction rule: reachable_by.induct)
  case (at_start onLine)
  show ?case by (rule mounted_owned)
next
  case (after_step s ev)
  then show ?case by (simp add: step_def step_owned)
qed

lemma run_owned: "timers_owned s \<Longrightarrow> timers_owned (run e evs s)"
  by (induction evs arbitrary: s) (simp_all add: run_def step_def step_owned)

section \<open>Finding a ride (claims C1 and C2)\<close>

lemma settle_found:
  assumes w: "well_formed_offer e t"
  shows "passengerRideStatus (handleFindRide_settle e req (Response (Some t)) s) = Some Found \<and>
         (\<exists>offer. currentRideOffer (handleFindRide_settle e req (Response (Some t)) s) = Some offer \<and>
                  offer_prop offer (js ''pickup'') = req_pickup req \<and>
                  offer_prop offer (js ''destination'') = req_destination req)"
proof -
  from w obtain fs where t: "trim t \<noteq> []" and v: "JSON_parse e (trim t) = Some (JObj fs)"
    and m: "map_of fs (js ''message'') = None"
    and a: "printable fs (js ''driverName'')" and b: "printable fs (js ''etaMinutes'')"
    by (auto simp: well_formed_offer_def split: option.splits jsval.splits)
  have a': "tostring_ok (case map_of fs (js ''driverName'') of None \<Rightarrow> JUndefined | Some x \<Rightarrow> x)"
    using a by (cases "map_of fs (js ''driverName'')") (simp_all add: printable_def)
  have b': "tostring_ok (case map_of fs (js ''etaMinutes'') of None \<Rightarrow> JUndefined | Some x \<Rightarrow> x)"
    using b by (cases "map_of fs (js ''etaMinutes'')") (simp_all add: printable_def)
  have k: "js ''pickup'' \<noteq> js ''destination''"
    by (simp add: js_def)
  from t v m a' b' k show ?thesis
    by (simp add: handleFindRide_settle_def Let_def offer_prop_def)
qed

text \<open>
  Claim C1. For every non-empty pickup and destination string, \<open>handleFindRide\<close>
  with connectivity sets the passenger's status to \<open>searching\<close> and waits with the
  two inputs; when the response is a well-formed offer (its trimmed text parses to
  an object without a \<open>message\<close> that line 316 can print), the status becomes
  \<open>found\<close> and the offer is not \<open>null\<close> and carries the submitted pickup and
  destination.
  This holds for the handler run in one piece, and for the response arriving in
  any later state.
\<close>

theorem find_ride_finds:
  assumes p: "pickupLocation s = JStr pickup" "pickup \<noteq> []"
    and d: "destination s = JStr dest" "dest \<noteq> []"
    and c: "isOnline s"
    and w: "well_formed_offer e t"
  shows "passengerRideStatus (handleFindRide_call s) = Some Searching \<and>
         pending_find (handleFindRide_call s) =
           pending_find s @ [\<lparr>req_pickup = JStr pickup, req_destination = JStr dest\<rparr>] \<and>
         passengerRideStatus (handleFindRide e (Response (Some t)) s) = Some Found \<and>
         (\<exists>offer. currentRideOffer (handleFindRide e (Response (Some t)) s) = Some offer \<and>
                  offer_prop offer (js ''pickup'') = JStr pickup \<and>
                  offer_prop offer (js ''destination'') = JStr dest) \<and>
         (\<forall>later. passengerRideStatus
                    (handleFindRide_settle e \<lparr>req_pickup = JStr pickup, req_destination = JStr dest\<rparr>
                       (Response (Some t)) later) = Some Found \<and>
                  (\<exists>offer. currentRideOffer
                      (handleFindRide_settle e \<lparr>req_pickup = JStr pickup, req_destination = JStr dest\<rparr>
                         (Response (Some t)) later) = Some offer \<and>
                    offer_prop offer (js ''pickup'') = JStr pickup \<and>
                    offer_prop offer (js ''destination'') = JStr dest))"
proof -
  let ?req = "\<lparr>req_pickup = JStr pickup, req_destination = JStr dest\<rparr>"
  from p d c have call: "passengerRideStatus (handleFindRide_call s) = Some Searching"
    "pending_find (handleFindRide_call s) = pending_find s @ [?req]"
    by (simp_all add: handleFindRide_call_def Let_def)
  then have "handleFindRide e (Response (Some t)) s =
      handleFindRide_settle e ?req (Response (Some t))
        ((handleFindRide_call s)\<lparr>pending_find := pending_find s\<rparr>)"
    by (simp add: handleFindRide_def Let_def)
  with call settle_found [OF w, of ?req] show ?thesis by simp
qed

theorem find_ride_finds_witness:
  "pickupLocation sample_ready = JStr (js ''Farmgate'') \<and>
   destination sample_ready = JStr (js ''Motijheel'') \<and>
   isOnline sample_ready \<and> well_formed_offer sample_env offer_text \<and>
   passengerRideStatus (handleFindRide_call sample_ready) = Some Searching \<and>
   passengerRideStatus (handleFindRide sample_env (Response (Some offer_text)) sample_ready)
     = Some Found \<and>
   (\<exists>offer. currentRideOffer (handleFindRide sample_env (Response (Some offer_text)) sample_ready)
              = Some offer \<and>
            offer_prop offer (js ''pickup'') = JStr (js ''Farmgate'') \<and>
            offer_prop offer (js ''destination'') = JStr (js ''Motijheel''))"
proof -
  have p: "pickupLocation sample_ready = JStr (js ''Farmgate'')"
    and d: "destination sample_ready = JStr (js ''Motijheel'')"
    and c: "isOnline sample_ready"
    unfolding sample_ready_def by code_simp+
  have n: "js ''Farmgate'' \<noteq> []" "js ''Motijheel'' \<noteq> []"
    by (simp_all add: js_def)
  have w: "well_formed_offer sample_env offer_text"
    by code_simp
  from find_ride_finds [OF p n(1) d n(2) c w] p d c w show ?thesis by blast
qed




section \<open>The offer and the driver's status (claim C3)\<close>

text \<open>
  Claim C3 says that in every reachable state a driver who is offline or online
  has no offer. The offer is one variable, \<open>currentRideOffer\<close>, shared by the
  passenger and the driver, so there is at most one; but the sample passenger has
  an offer while the driver's status is \<open>offline\<close>, as it is from the start.
\<close>

theorem passenger_offer_while_offline:
  "reachable sample_env sample_found \<and> driverStatus sample_found = Offline \<and>
   currentRideOffer sample_found \<noteq> None"
proof -
  have r: "reachable sample_env sample_found"
    unfolding sample_found_def sample_located_def
    by (intro reachable_run reachable_by.after_step reachable_by.at_start) simp_all
  have "driverStatus sample_found = Offline \<and> currentRideOffer sample_found \<noteq> None"
    unfolding sample_found_def by code_simp
  with r show ?thesis by simp
qed

lemma mounted_offer: "driverStatus (mounted e onLine) = Offline" "currentRideOffer (mounted e onLine) = None"
  by (simp_all add: mounted_def Let_def geolocation_effect_def initial_def
      polling_effect_cases tracking_effect_cases)

lemma settle_fits:
  "offer_fits s \<Longrightarrow> offer_fits (simulateDriverActivity_settle e r s)"
  by (simp add: offer_fits_def simulateDriverActivity_settle_def Let_def
      split: ai_result.splits option.splits sum.splits jsval.splits)

lemma tick_status:
  "driverStatus (handle e (Tick i) s) = driverStatus s"
  "currentRideOffer (handle e (Tick i) s) = currentRideOffer s"
  by (simp_all add: simulateDriverActivity_call_def tracking_tick_def tracking_arrived_def
      split: option.splits callback.splits sum.splits)

lemma chunk_status:
  "driverStatus (handle e (Stream_chunk k c) s) = driverStatus s"
  "currentRideOffer (handle e (Stream_chunk k c) s) = currentRideOffer s"
  by (simp_all add: split_def Let_def split: chat_flight.splits)

lemma handle_fits:
  assumes "offer_fits s" "enabled e s ev" "\<not> passenger_flow ev"
  shows "offer_fits (handle e ev s)"
proof (cases ev)
  case (Poll_settled r)
  with assms settle_fits [of "s\<lparr>pending_poll := pending_poll s - 1\<rparr>" e r] show ?thesis
    by (simp add: offer_fits_def)
next
  case (Tick i)
  with assms show ?thesis by (simp only: offer_fits_def tick_status)
next
  case (Stream_chunk k c)
  with assms show ?thesis by (simp only: offer_fits_def chunk_status)
qed (use assms in \<open>simp_all add: offer_fits_def position_found_def position_failed_def
      resetAppState_def handleDriverToggleOnline_def handleDriverAcceptRide_def
      handleDriverDeclineRide_def handleDriverCompleteRide_def goOnlineAgain_def
      handleToggleChat_def initializeChat_def handleSendChatMessage_call_def Let_def
      split: option.splits sum.splits\<close>)

lemma reachable_fits:
  "reachable_by (\<lambda>ev. \<not> passenger_flow ev) e s \<Longrightarrow> offer_fits s"
proof (induction rule: reachable_by.induct)
  case (at_start onLine)
  show ?case by (simp add: offer_fits_def mounted_offer)
next
  case (after_step s ev)
  then have "offer_fits (handle e ev s)" if "enabled e s ev"
    using that by (simp add: handle_fits)
  with after_step show ?case
    by (simp add: step_def offer_fits_def)
qed

lemma fare_fixed_None [simp]: "fare_fixed None = Inr None"
  by (simp add: fare_fixed_def)

lemma fare_fixed_built:
  "fare_fixed (Some \<lparr>offer_id = k, props = (js ''estimatedFare'', fare) # fs\<rparr>) =
     (case fare of JUndefined \<Rightarrow> Inr None | JNull \<Rightarrow> Inr None | JNum n \<Rightarrow> Inr (Some n)
      | w \<Rightarrow> Inl TypeError)"
  by (simp add: fare_fixed_def offer_prop_def)

lemma settle_parsed:
  assumes "trim str \<noteq> []" "JSON_parse e (trim str) = Some v" "get_prop v (js ''fare'') = Inr fare"
  shows "driverStatus (simulateDriverActivity_settle e (Response (Some str)) s) = Request_pending"
    and "currentRideOffer (simulateDriverActivity_settle e (Response (Some str)) s) =
           Some \<lparr>offer_id = next_offer s, props = (js ''estimatedFare'', fare) # own_props v\<rparr>"
  using assms
  by (simp_all add: simulateDriverActivity_settle_def Let_def split: jsval.splits)

lemma settle_not_parsed_status:
  assumes "trim str = [] \<or> JSON_parse e (trim str) = None \<or>
           (\<exists>v err. JSON_parse e (trim str) = Some v \<and> get_prop v (js ''fare'') = Inl err)"
  shows "driverStatus (simulateDriverActivity_settle e (Response (Some str)) s) = driverStatus s"
    and "currentRideOffer (simulateDriverActivity_settle e (Response (Some str)) s) =
           currentRideOffer s"
  using assms
  by (auto simp: simulateDriverActivity_settle_def split: option.splits)

lemma settle_fits_online:
  assumes f: "offer_fits_online s" and a: "numeric_fare e r"
  shows "offer_fits_online (simulateDriverActivity_settle e r s)"
proof (cases r)
  case (Rejected m)
  with f show ?thesis
    by (simp add: offer_fits_online_def offer_fits_def simulateDriverActivity_settle_def)
next
  case (Response t)
  show ?thesis
  proof (cases t)
    case None
    with Response f show ?thesis
      by (simp add: offer_fits_online_def offer_fits_def simulateDriverActivity_settle_def)
  next
    case (Some str)
    note r = Response Some
    consider (blank) "trim str = []"
      | (unparsed) "trim str \<noteq> []" "JSON_parse e (trim str) = None"
      | (thrown) v err where "trim str \<noteq> []" "JSON_parse e (trim str) = Some v"
          "get_prop v (js ''fare'') = Inl err"
      | (parsed) v fare where "trim str \<noteq> []" "JSON_parse e (trim str) = Some v"
          "get_prop v (js ''fare'') = Inr fare"
      by (cases "JSON_parse e (trim str)"; cases "get_prop (the (JSON_parse e (trim str))) (js ''fare'')")
         auto
    then show ?thesis
    proof cases
      case blank
      with f r settle_not_parsed_status [of str e s] show ?thesis
        by (simp add: offer_fits_online_def offer_fits_def)
    next
      case unparsed
      with f r settle_not_parsed_status [of str e s] show ?thesis
        by (simp add: offer_fits_online_def offer_fits_def)
    next
      case thrown
      with f r settle_not_parsed_status [of str e s] show ?thesis
        by (simp add: offer_fits_online_def offer_fits_def)
    next
      case parsed
      with a r have "fare = JUndefined \<or> fare = JNull \<or> (\<exists>n. fare = JNum n)"
        by (cases fare) (simp_all add: numeric_fare_def)
      then have "fare_fixed (Some \<lparr>offer_id = next_offer s,
            props = (js ''estimatedFare'', fare) # own_props v\<rparr>) \<noteq> Inl TypeError"
        by (auto simp: fare_fixed_built)
      with r settle_parsed [OF parsed, of s] show ?thesis
        by (simp add: offer_fits_online_def offer_fits_def)
    qed
  qed
qed

lemma handle_fits_online:
  assumes "offer_fits_online s" "enabled e s ev" "driver_side e ev"
  shows "offer_fits_online (handle e ev s)"
proof (cases ev)
  case (Poll_settled r)
  with assms have "numeric_fare e r" by (simp add: driver_side_def)
  moreover from assms have "offer_fits_online (s\<lparr>pending_poll := pending_poll s - 1\<rparr>)"
    by (simp add: offer_fits_online_def offer_fits_def)
  ultimately show ?thesis
    using Poll_settled by (simp add: settle_fits_online)
next
  case (Tick i)
  with assms show ?thesis by (simp add: offer_fits_online_def offer_fits_def tick_status del: handle.simps)
next
  case (Stream_chunk k c)
  with assms show ?thesis by (simp add: offer_fits_online_def offer_fits_def chunk_status del: handle.simps)
next
  case Driver_complete
  show ?thesis
  proof (cases "fare_fixed (currentRideOffer s)")
    case (Inl err)
    moreover have "err = TypeError" by (cases err) simp
    ultimately show ?thesis
      using assms by (simp add: offer_fits_online_def)
  next
    case (Inr fare)
    with Driver_complete show ?thesis
      by (simp add: offer_fits_online_def offer_fits_def handleDriverCompleteRide_def)
  qed
qed (use assms in \<open>auto simp: offer_fits_online_def offer_fits_def driver_side_def
      position_found_def position_failed_def
      resetAppState_def handleDriverToggleOnline_def handleDriverAcceptRide_def
      handleDriverDeclineRide_def goOnlineAgain_def
      handleToggleChat_def initializeChat_def handleSendChatMessage_call_def Let_def
      split: option.splits\<close>)

lemma reachable_fits_online:
  "reachable_by (driver_side e) e s \<Longrightarrow> offer_fits_online s"
proof (induction rule: reachable_by.induct)
  case (at_start onLine)
  show ?case by (simp add: offer_fits_online_def offer_fits_def mounted_offer)
next
  case (after_step s ev)
  then have "offer_fits_online (handle e ev s)" if "enabled e s ev"
    using that by (simp add: handle_fits_online)
  with after_step show ?case
    by (simp add: step_def offer_fits_online_def offer_fits_def)
qed

text \<open>
  Claim C3, amended: in every state reached without the events of the passenger's
  ride (find-ride and its response, the passenger's accept, cancel and complete),
  the status \<open>request_pending\<close> has an offer and the status \<open>offline\<close> has none, also
  when a polling response arrives late; and when moreover the fare of every ride
  request that parses is a number or is missing, the status \<open>online\<close> has no offer.
\<close>

theorem offer_fits_status:
  "(reachable_by (\<lambda>ev. \<not> passenger_flow ev) e s \<longrightarrow>
      (driverStatus s = Request_pending \<longrightarrow> currentRideOffer s \<noteq> None) \<and>
      (driverStatus s = Offline \<longrightarrow> currentRideOffer s = None)) \<and>
   (reachable_by (driver_side e) e s \<longrightarrow>
      (driverStatus s = Request_pending \<longrightarrow> currentRideOffer s \<noteq> None) \<and>
      (driverStatus s = Offline \<longrightarrow> currentRideOffer s = None) \<and>
      (driverStatus s = Online \<longrightarrow> currentRideOffer s = None))"
  using reachable_fits [of e s] reachable_fits_online [of e s]
  by (simp add: offer_fits_online_def offer_fits_def)

theorem offer_fits_status_witness:
  "reachable_by (\<lambda>ev. \<not> passenger_flow ev) sample_env sample_pending \<and>
   reachable_by (driver_side sample_env) sample_env sample_pending \<and>
   reachable_by (driver_side sample_env) sample_env sample_waiting \<and>
   reachable_by (driver_side sample_env) sample_env (mounted sample_env True) \<and>
   driverStatus sample_pending = Request_pending \<and> currentRideOffer sample_pending \<noteq> None \<and>
   driverStatus sample_waiting = Online \<and> currentRideOffer sample_waiting = None \<and>
   driverStatus (mounted sample_env True) = Offline \<and>
   currentRideOffer (mounted sample_env True) = None"
proof -
  have a: "numeric_fare sample_env (Response (Some request_text))"
    by code_simp
  have r1: "reachable_by (\<lambda>ev. \<not> passenger_flow ev) sample_env sample_pending"
    unfolding sample_pending_def driver_requested_def sample_located_def
    by (intro reachable_run reachable_by.after_step reachable_by.at_start) simp_all
  have r2: "reachable_by (driver_side sample_env) sample_env sample_pending"
    unfolding sample_pending_def driver_requested_def sample_located_def
    by (intro reachable_run reachable_by.after_step reachable_by.at_start)
       (simp_all add: driver_side_def a)
  have r3: "reachable_by (driver_side sample_env) sample_env sample_waiting"
    unfolding sample_waiting_def sample_located_def
    by (intro reachable_run reachable_by.after_step reachable_by.at_start)
       (simp_all add: driver_side_def)
  have r4: "reachable_by (driver_side sample_env) sample_env (mounted sample_env True)"
    by (rule reachable_by.at_start)
  have s1: "driverStatus sample_pending = Request_pending"
    unfolding sample_pending_def by code_simp
  have s2: "driverStatus sample_waiting = Online"
    unfolding sample_waiting_def by code_simp
  have s3: "driverStatus (mounted sample_env True) = Offline"
    by code_simp
  from offer_fits_status [of sample_env sample_pending] offer_fits_status [of sample_env sample_waiting]
    offer_fits_status [of sample_env "mounted sample_env True"] r1 r2 r3 r4 s1 s2 s3
  show ?thesis by simp
qed

section \<open>The driver accepts or declines (claim C4)\<close>

text \<open>
  Claim C4 says that both accepting and declining a pending request clear the
  offer. The sample driver has a pending request; after the accept button the
  offer is still there.
\<close>

theorem accept_keeps_offer:
  "driverStatus sample_pending = Request_pending \<and> currentRideOffer sample_pending \<noteq> None \<and>
   enabled sample_env sample_pending Driver_accept \<and>
   currentRideOffer (step sample_env Driver_accept sample_pending) \<noteq> None"
  unfolding sample_pending_def by code_simp

text \<open>
  Claim C4, amended: the accept and decline buttons need the status
  \<open>request_pending\<close> and an offer. Accepting an offer whose pickup and destination
  convert to strings, as strings do, sets \<open>on_ride\<close>, copies the two values of the
  offer into \<open>pickupLocation\<close> and \<open>destination\<close> and keeps the offer, which the
  ride card and the fare of lines 714 to 718 and 387 read. Declining sets \<open>online\<close>
  and clears the offer.
\<close>

theorem accept_and_decline:
  "(enabled e s Driver_accept \<longrightarrow> currentRideOffer s = Some offer \<longrightarrow>
    tostring_ok (offer_prop offer (js ''pickup'')) \<longrightarrow>
    tostring_ok (offer_prop offer (js ''destination'')) \<longrightarrow>
      driverStatus s = Request_pending \<and>
      driverStatus (step e Driver_accept s) = On_ride \<and>
      pickupLocation (step e Driver_accept s) = offer_prop offer (js ''pickup'') \<and>
      destination (step e Driver_accept s) = offer_prop offer (js ''destination'') \<and>
      currentRideOffer (step e Driver_accept s) = Some offer) \<and>
   (enabled e s Driver_decline \<longrightarrow>
      driverStatus s = Request_pending \<and>
      driverStatus (step e Driver_decline s) = Online \<and>
      currentRideOffer (step e Driver_decline s) = None)"
  by (simp add: step_def handleDriverAcceptRide_def handleDriverDeclineRide_def
      render_same_connection Let_def)

theorem accept_and_decline_witness:
  "enabled sample_env sample_pending Driver_accept \<and>
   enabled sample_env sample_pending Driver_decline \<and>
   pickupLocation (step sample_env Driver_accept sample_pending) = JStr (js ''Farmgate'') \<and>
   destination (step sample_env Driver_accept sample_pending) = JStr (js ''Motijheel'') \<and>
   driverStatus (step sample_env Driver_accept sample_pending) = On_ride \<and>
   driverStatus (step sample_env Driver_decline sample_pending) = Online \<and>
   currentRideOffer (step sample_env Driver_decline sample_pending) = None"
proof -
  define offer where "offer = the (currentRideOffer sample_pending)"
  have a: "enabled sample_env sample_pending Driver_accept"
    unfolding sample_pending_def by code_simp
  have d: "enabled sample_env sample_pending Driver_decline"
    unfolding sample_pending_def by code_simp
  have "currentRideOffer sample_pending \<noteq> None"
    unfolding sample_pending_def by code_simp
  then have o: "currentRideOffer sample_pending = Some offer"
    by (simp add: offer_def)
  have p: "offer_prop offer (js ''pickup'') = JStr (js ''Farmgate'')"
    unfolding offer_def sample_pending_def by code_simp
  have q: "offer_prop offer (js ''destination'') = JStr (js ''Motijheel'')"
    unfolding offer_def sample_pending_def by code_simp
  from accept_and_decline [of sample_env sample_pending offer] a d o p q
  show ?thesis by simp
qed

section \<open>The countdown (claim C5)\<close>

text \<open>
  Claim C5 says that for every starting ETA the countdown never goes below zero.
  The sample passenger has accepted an offer with an ETA of two minutes and a
  half, a number as the schema asks. The offer has a fare of 250, which the offer
  card printed (line 622) before its accept button was pressed. The counter goes
  from 2.5 to 1.5, to 0.5 and, at the third tick, to minus a half, and the ride is
  still tracked.
\<close>

theorem half_eta_goes_negative:
  "map_option (\<lambda>offer. offer_prop offer (js ''estimatedFare''))
     (currentRideOffer sample_tracking_half) = Some (JNum 250) \<and>
   passengerRideStatus sample_tracking_half = Some Tracking \<and>
   eta_of 1 sample_tracking_half = Some (JNum (5 / 2)) \<and>
   eta_of 1 (ticks sample_env 1 1 sample_tracking_half) = Some (JNum (3 / 2)) \<and>
   eta_of 1 (ticks sample_env 1 2 sample_tracking_half) = Some (JNum (1 / 2)) \<and>
   eta_of 1 (ticks sample_env 1 3 sample_tracking_half) = Some (JNum (- 1 / 2)) \<and>
   passengerRideStatus (ticks sample_env 1 3 sample_tracking_half) = Some Tracking"
  unfolding sample_tracking_half_def by code_simp

lemma ticks_Suc: "ticks e i (Suc k) s = step e (Tick i) (ticks e i k s)"
proof -
  have "replicate (Suc k) (Tick i) = replicate k (Tick i) @ [Tick i]"
    by (simp add: replicate_append_same)
  then show ?thesis by (simp add: ticks_def run_def del: replicate.simps)
qed

lemma map_of_set_eta_cases:
  "map_of (set_eta i v tab) i = (case map_of tab i of None \<Rightarrow> None | Some cb \<Rightarrow> Some (Track v))"
  by (induction tab) (simp_all add: set_eta_def split_def)

lemma map_of_set_eta:
  "map_of tab i \<noteq> None \<Longrightarrow> map_of (set_eta i v tab) i = Some (Track v)"
  by (auto simp: map_of_set_eta_cases)

lemma tick_decrements:
  assumes st: "passengerRideStatus s = Some Tracking"
    and rf: "rideTrackingIntervalRef s = Some i"
    and eta: "eta_of i s = Some (JNum n)" and pos: "0 < n"
  shows "passengerRideStatus (step e (Tick i) s) = Some Tracking \<and>
         rideTrackingIntervalRef (step e (Tick i) s) = Some i \<and>
         eta_of i (step e (Tick i) s) = Some (JNum (n - 1))"
proof -
  from eta have m: "map_of (intervals s) i = Some (Track (JNum n))"
    by (auto simp: eta_of_def split: option.splits callback.splits)
  let ?s' = "s\<lparr>intervals := set_eta i (JNum (n - 1)) (intervals s),
               apiResponse := Msg_driver_minutes_away (n - 1)\<rparr>"
  from m pos have h: "handle e (Tick i) s = ?s'"
    by (simp add: tracking_tick_def numeric_def)
  have "timer_effects s ?s' = ?s'"
    by (simp add: timer_effects_def polling_deps_changed_def tracking_deps_changed_def
        offer_identity_def)
  then have "render e s ?s' = ?s'"
    by (simp add: render_same_connection)
  with m h have "step e (Tick i) s = ?s'"
    by (simp add: step_def)
  moreover from m have "eta_of i ?s' = Some (JNum (n - 1))"
    by (simp add: eta_of_def map_of_set_eta)
  ultimately show ?thesis using st rf by simp
qed

lemma map_of_cleared: "map_of (filter (\<lambda>(j, cb). j \<noteq> i) tab) i = None"
  by (induction tab) auto

lemma tick_arrives:
  assumes st: "passengerRideStatus s = Some Tracking"
    and rf: "rideTrackingIntervalRef s = Some i"
    and eta: "eta_of i s = Some (JNum 0)"
  shows "passengerRideStatus (step e (Tick i) s) = Some Completed \<and>
         rideTrackingIntervalRef (step e (Tick i) s) = None \<and>
         map_of (intervals (step e (Tick i) s)) i = None"
proof -
  from eta have m: "map_of (intervals s) i = Some (Track (JNum 0))"
    by (auto simp: eta_of_def split: option.splits callback.splits)
  let ?s' = "(clearInterval i s)\<lparr>apiResponse := Msg_driver_arrived,
               passengerRideStatus := Some Completed\<rparr>"
  from m rf have h: "handle e (Tick i) s = ?s'"
    by (simp add: tracking_tick_def tracking_arrived_def numeric_def)
  have p: "\<not> polling_deps_changed s ?s'" and t: "tracking_deps_changed s ?s'"
    using st by (simp_all add: polling_deps_changed_def tracking_deps_changed_def offer_identity_def)
  have "timer_effects s ?s' = tracking_effect (tracking_cleanup ?s')"
    using p t by (simp add: timer_effects_def)
  also have "tracking_cleanup ?s' = clearInterval i ?s'"
    using rf by (simp add: tracking_cleanup_def)
  also have "tracking_effect (clearInterval i ?s') =
      (clearInterval i (clearInterval i ?s'))\<lparr>rideTrackingIntervalRef := None\<rparr>"
    using rf by (simp add: tracking_effect_cases)
  finally have "render e s ?s' =
      (clearInterval i (clearInterval i ?s'))\<lparr>rideTrackingIntervalRef := None\<rparr>"
    by (simp add: render_same_connection)
  with m h have "step e (Tick i) s =
      (clearInterval i (clearInterval i ?s'))\<lparr>rideTrackingIntervalRef := None\<rparr>"
    by (simp add: step_def)
  then show ?thesis
    by (simp add: clearInterval_def map_of_cleared)
qed

text \<open>
  Claim C5, amended: for a starting ETA that is a whole number \<open>N\<close> of minutes, up
  to \<open>2^53\<close> where doubles count exactly, the counter after \<open>k\<close> ticks is \<open>N - k\<close> for
  every \<open>k\<close> up to \<open>N\<close>, so each tick takes exactly one and the counter is never
  negative, and the ride is tracked all that time; the next tick, the first that
  finds the counter at 0, sets the status \<open>completed\<close> and clears the interval.
\<close>

theorem countdown:
  assumes st: "passengerRideStatus s = Some Tracking"
    and rf: "rideTrackingIntervalRef s = Some i"
    and eta: "eta_of i s = Some (JNum (of_nat N))"
    and exact: "N \<le> 2 ^ 53"
  shows "(\<forall>k \<le> N. eta_of i (ticks e i k s) = Some (JNum (of_nat (N - k))) \<and>
                  passengerRideStatus (ticks e i k s) = Some Tracking) \<and>
         passengerRideStatus (ticks e i (Suc N) s) = Some Completed \<and>
         rideTrackingIntervalRef (ticks e i (Suc N) s) = None \<and>
         map_of (intervals (ticks e i (Suc N) s)) i = None"
proof -
  have run: "k \<le> N \<Longrightarrow>
      passengerRideStatus (ticks e i k s) = Some Tracking \<and>
      rideTrackingIntervalRef (ticks e i k s) = Some i \<and>
      eta_of i (ticks e i k s) = Some (JNum (of_nat (N - k)))" for k
  proof (induction k)
    case 0
    with st rf eta show ?case by (simp add: ticks_def run_def)
  next
    case (Suc k)
    then have ih: "passengerRideStatus (ticks e i k s) = Some Tracking"
      "rideTrackingIntervalRef (ticks e i k s) = Some i"
      "eta_of i (ticks e i k s) = Some (JNum (of_nat (N - k)))"
      by simp_all
    from Suc.prems have "(0::rat) < of_nat (N - k)" by simp
    from tick_decrements [OF ih this, of e] Suc.prems show ?case
      by (simp add: ticks_Suc of_nat_diff)
  qed
  from run [of N] have "passengerRideStatus (ticks e i N s) = Some Tracking"
    "rideTrackingIntervalRef (ticks e i N s) = Some i"
    "eta_of i (ticks e i N s) = Some (JNum 0)"
    by simp_all
  from tick_arrives [OF this, of e] run show ?thesis
    by (simp add: ticks_Suc)
qed

theorem countdown_witness:
  "map_option (\<lambda>offer. offer_prop offer (js ''estimatedFare''))
     (currentRideOffer sample_tracking) = Some (JNum 250) \<and>
   passengerRideStatus sample_tracking = Some Tracking \<and>
   rideTrackingIntervalRef sample_tracking = Some 1 \<and>
   eta_of 1 sample_tracking = Some (JNum 2) \<and>
   eta_of 1 (ticks sample_env 1 1 sample_tracking) = Some (JNum 1) \<and>
   eta_of 1 (ticks sample_env 1 2 sample_tracking) = Some (JNum 0) \<and>
   passengerRideStatus (ticks sample_env 1 2 sample_tracking) = Some Tracking \<and>
   passengerRideStatus (ticks sample_env 1 3 sample_tracking) = Some Completed \<and>
   rideTrackingIntervalRef (ticks sample_env 1 3 sample_tracking) = None"
proof -
  have a: "passengerRideStatus sample_tracking = Some Tracking"
    and b: "rideTrackingIntervalRef sample_tracking = Some 1"
    and c: "eta_of 1 sample_tracking = Some (JNum (of_nat 2))"
    and f: "map_option (\<lambda>offer. offer_prop offer (js ''estimatedFare''))
              (currentRideOffer sample_tracking) = Some (JNum 250)"
    unfolding sample_tracking_def by code_simp+
  have d: "(2::nat) \<le> 2 ^ 53" by simp
  from countdown [OF a b c d, of sample_env] a b c
  have "(\<forall>k \<le> 2. eta_of 1 (ticks sample_env 1 k sample_tracking) = Some (JNum (of_nat (2 - k))) \<and>
                  passengerRideStatus (ticks sample_env 1 k sample_tracking) = Some Tracking)"
    and e: "passengerRideStatus (ticks sample_env 1 (Suc 2) sample_tracking) = Some Completed"
      "rideTrackingIntervalRef (ticks sample_env 1 (Suc 2) sample_tracking) = None"
    by simp_all
  then have "eta_of 1 (ticks sample_env 1 1 sample_tracking) = Some (JNum (of_nat (2 - 1)))"
    "eta_of 1 (ticks sample_env 1 2 sample_tracking) = Some (JNum (of_nat (2 - 2)))"
    "passengerRideStatus (ticks sample_env 1 2 sample_tracking) = Some Tracking"
    by simp_all
  with a b c e f show ?thesis by (simp add: numeral_3_eq_3 eval_nat_numeral)
qed

section \<open>Going offline (claim C6)\<close>

text \<open>
  Claim C6 says that the toggle takes the driver offline from any driver state.
  The sample driver has a pending request and has lost the connection: the handler
  only reports an error (line 358), and the button is disabled (line 677), so the
  status and the offer stay.
\<close>

theorem toggle_rejected_without_connection:
  "reachable sample_env sample_disconnected \<and>
   driverStatus sample_disconnected = Request_pending \<and>
   currentRideOffer sample_disconnected \<noteq> None \<and>
   driverStatus (handleDriverToggleOnline sample_disconnected) = Request_pending \<and>
   currentRideOffer (handleDriverToggleOnline sample_disconnected) \<noteq> None \<and>
   step sample_env Driver_toggle sample_disconnected = sample_disconnected"
proof -
  have r: "reachable sample_env sample_disconnected"
    unfolding sample_disconnected_def sample_located_def
    by (intro reachable_run reachable_by.after_step reachable_by.at_start) simp_all
  have "driverStatus sample_disconnected = Request_pending \<and>
   currentRideOffer sample_disconnected \<noteq> None \<and>
   driverStatus (handleDriverToggleOnline sample_disconnected) = Request_pending \<and>
   currentRideOffer (handleDriverToggleOnline sample_disconnected) \<noteq> None \<and>
   step sample_env Driver_toggle sample_disconnected = sample_disconnected"
    unfolding sample_disconnected_def by code_simp
  with r show ?thesis by simp
qed

lemma no_poll_tick:
  assumes "poll_ids s = []"
  shows "pending_poll (step e (Tick i) s) = pending_poll s"
proof (cases "map_of (intervals s) i")
  case None
  then show ?thesis by (simp add: step_def)
next
  case (Some cb)
  show ?thesis
  proof (cases cb)
    case (Poll c)
    with Some have "(i, Poll c) \<in> set (intervals s)" by (simp add: map_of_SomeD)
    then have "i \<in> set (poll_ids s)" by (auto simp: set_poll_ids)
    with assms show ?thesis by simp
  next
    case (Track eta)
    have "pending_poll (tracking_tick e i eta s) = pending_poll s"
      by (simp add: tracking_tick_def tracking_arrived_def split: sum.splits option.splits)
    with Some Track show ?thesis by (simp add: step_def)
  qed
qed

text \<open>
  Claim C6, amended: in every reachable state where the driver is not offline and
  connectivity is available, \<open>handleDriverToggleOnline\<close> with the render that
  follows it, which is the step of the toggle button when that is enabled, sets
  the status \<open>offline\<close> and clears the offer; and whatever happens afterwards, in
  every state where the driver is offline no polling interval is scheduled and no
  tick starts a request.
\<close>

theorem toggle_halts_polling:
  assumes r: "reachable e s" and c: "isOnline s" and d: "driverStatus s \<noteq> Offline"
  shows "driverStatus (render e s (handleDriverToggleOnline s)) = Offline \<and>
         currentRideOffer (render e s (handleDriverToggleOnline s)) = None \<and>
         (enabled e s Driver_toggle \<longrightarrow>
            step e Driver_toggle s = render e s (handleDriverToggleOnline s)) \<and>
         (\<forall>evs. driverStatus (run e evs (render e s (handleDriverToggleOnline s))) = Offline \<longrightarrow>
            poll_ids (run e evs (render e s (handleDriverToggleOnline s))) = [] \<and>
            (\<forall>i. pending_poll (step e (Tick i) (run e evs (render e s (handleDriverToggleOnline s))))
                 = pending_poll (run e evs (render e s (handleDriverToggleOnline s)))))"
proof -
  let ?s1 = "render e s (handleDriverToggleOnline s)"
  from r have "timers_owned s" by (rule reachable_owned)
  then have "timers_owned ?s1"
    using step_owned [of s e Driver_toggle] by simp
  then have own: "timers_owned (run e evs ?s1)" for evs
    by (rule run_owned)
  have halt: "poll_ids (run e evs ?s1) = [] \<and>
      (\<forall>i. pending_poll (step e (Tick i) (run e evs ?s1)) = pending_poll (run e evs ?s1))"
    if "driverStatus (run e evs ?s1) = Offline" for evs
  proof -
    from own [of evs] that have "poll_ids (run e evs ?s1) = []"
      by (simp add: timers_owned_iff)
    then show ?thesis by (simp add: no_poll_tick)
  qed
  from c d have "driverStatus ?s1 = Offline" "currentRideOffer ?s1 = None"
    by (simp_all add: handleDriverToggleOnline_def)
  with halt show ?thesis by (simp add: step_def)
qed

theorem toggle_halts_polling_witness:
  "reachable sample_env sample_waiting \<and> isOnline sample_waiting \<and>
   driverStatus sample_waiting \<noteq> Offline \<and> poll_ids sample_waiting \<noteq> [] \<and>
   enabled sample_env sample_waiting Driver_toggle \<and>
   driverStatus (step sample_env Driver_toggle sample_waiting) = Offline \<and>
   currentRideOffer (step sample_env Driver_toggle sample_waiting) = None \<and>
   poll_ids (step sample_env Driver_toggle sample_waiting) = [] \<and>
   pending_poll (step sample_env (Tick 1) (step sample_env Driver_toggle sample_waiting)) =
     pending_poll (step sample_env Driver_toggle sample_waiting)"
proof -
  have r: "reachable sample_env sample_waiting"
    unfolding sample_waiting_def sample_located_def
    by (intro reachable_run reachable_by.after_step reachable_by.at_start) simp_all
  have c: "isOnline sample_waiting" and d: "driverStatus sample_waiting \<noteq> Offline"
    and p: "poll_ids sample_waiting \<noteq> []" and en: "enabled sample_env sample_waiting Driver_toggle"
    unfolding sample_waiting_def by code_simp+
  note t = toggle_halts_polling [OF r c d]
  from t en have st: "step sample_env Driver_toggle sample_waiting =
      render sample_env sample_waiting (handleDriverToggleOnline sample_waiting)"
    by simp
  from t have "driverStatus (run sample_env [] (render sample_env sample_waiting
        (handleDriverToggleOnline sample_waiting))) = Offline"
    by (simp add: run_def)
  with t have "poll_ids (run sample_env [] (render sample_env sample_waiting
        (handleDriverToggleOnline sample_waiting))) = [] \<and>
      (\<forall>i. pending_poll (step sample_env (Tick i) (run sample_env [] (render sample_env sample_waiting
        (handleDriverToggleOnline sample_waiting)))) =
           pending_poll (run sample_env [] (render sample_env sample_waiting
        (handleDriverToggleOnline sample_waiting))))"
    by blast
  with t st r c d p en show ?thesis by (simp add: run_def)
qed

section \<open>The passenger cancels (claim C7)\<close>

text \<open>
  Claim C7 says that from the status \<open>found\<close> the cancel intent leaves no active
  ride (the status \<open>null\<close>) and clears the offer. The sample passenger has the
  status \<open>found\<close> and an offer with a fare of 250, which the offer card prints
  (line 622) above its two buttons; after the cancel button the status is not
  \<open>null\<close>.
\<close>

theorem cancel_status_not_none:
  "passengerRideStatus sample_found = Some Found \<and>
   map_option (\<lambda>offer. offer_prop offer (js ''estimatedFare''))
     (currentRideOffer sample_found) = Some (JNum 250) \<and>
   enabled sample_env sample_found Passenger_cancel \<and>
   passengerRideStatus (step sample_env Passenger_cancel sample_found) \<noteq> None"
  unfolding sample_found_def by code_simp

text \<open>
  Claim C7, amended: whenever the cancel button of the offer card can be pressed,
  which needs the status \<open>found\<close>, pressing it sets the status \<open>canceled\<close> (line 345)
  and clears the offer.
\<close>

theorem cancel_sets_canceled:
  assumes "enabled e s Passenger_cancel"
  shows "passengerRideStatus s = Some Found \<and>
         passengerRideStatus (step e Passenger_cancel s) = Some Canceled \<and>
         currentRideOffer (step e Passenger_cancel s) = None"
  using assms by (simp add: step_def handlePassengerCancelRide_def)

theorem cancel_sets_canceled_witness:
  "map_option (\<lambda>offer. offer_prop offer (js ''estimatedFare''))
     (currentRideOffer sample_found) = Some (JNum 250) \<and>
   enabled sample_env sample_found Passenger_cancel \<and>
   passengerRideStatus (step sample_env Passenger_cancel sample_found) = Some Canceled \<and>
   currentRideOffer (step sample_env Passenger_cancel sample_found) = None"
proof -
  have en: "enabled sample_env sample_found Passenger_cancel"
    and f: "map_option (\<lambda>offer. offer_prop offer (js ''estimatedFare''))
              (currentRideOffer sample_found) = Some (JNum 250)"
    unfolding sample_found_def by code_simp+
  from cancel_sets_canceled [OF en] en f show ?thesis by simp
qed

section \<open>Sending a chat message (claims C8 and C9)\<close>

text \<open>
  Claim C8. \<open>handleSendChatMessage\<close> returns without any change when the input is
  empty or only whitespace; without connectivity it appends no turn, leaves the
  session as it is and sends nothing, and for an input that is not blank it sets
  the error of line 416.
\<close>

theorem send_rejected:
  "(trim (chatInput s) = [] \<longrightarrow> handleSendChatMessage_call e s = s) \<and>
   (\<not> isOnline s \<longrightarrow>
      chatMessages (handleSendChatMessage_call e s) = chatMessages s \<and>
      chatRef (handleSendChatMessage_call e s) = chatRef s \<and>
      pending_chat (handleSendChatMessage_call e s) = pending_chat s \<and>
      (trim (chatInput s) \<noteq> [] \<longrightarrow> error (handleSendChatMessage_call e s) = Err_offline_send))"
  by (simp add: handleSendChatMessage_call_def)

theorem send_rejected_witness:
  "\<not> isOnline sample_typed \<and> trim (chatInput sample_typed) \<noteq> [] \<and>
   chatMessages (handleSendChatMessage_call sample_env sample_typed) = chatMessages sample_typed \<and>
   chatRef (handleSendChatMessage_call sample_env sample_typed) = chatRef sample_typed \<and>
   error (handleSendChatMessage_call sample_env sample_typed) = Err_offline_send \<and>
   trim (chatInput (mounted sample_env True)) = [] \<and>
   handleSendChatMessage_call sample_env (mounted sample_env True) = mounted sample_env True"
proof -
  have a: "\<not> isOnline sample_typed" and b: "trim (chatInput sample_typed) \<noteq> []"
    unfolding sample_typed_def by code_simp+
  have c: "trim (chatInput (mounted sample_env True)) = []"
    by code_simp
  from send_rejected [of sample_typed sample_env] send_rejected [of "mounted sample_env True" sample_env]
    a b c show ?thesis by simp
qed

lemma show_fragment_fills:
  "show_fragment txt (ms @ [\<lparr>sender = Ai, msg_text = x\<rparr>]) =
     ms @ [\<lparr>sender = Ai, msg_text = Text txt\<rparr>]"
  by (simp add: show_fragment_def)

lemma fragments_text_simps [simp]:
  "fragments_text [] = []"
  "fragments_text (None # cs) = fragments_text cs"
  "fragments_text (Some t # cs) = t @ fragments_text cs"
  by (simp_all add: fragments_text_def)

lemma read_stream_filled:
  "read_stream chunks (acc, ms @ [\<lparr>sender = Ai, msg_text = Text x\<rparr>]) =
     (acc @ fragments_text chunks,
      ms @ [\<lparr>sender = Ai,
             msg_text = Text (if fragments_text chunks = [] then x
                              else acc @ fragments_text chunks)\<rparr>])"
proof (induction chunks arbitrary: acc x)
  case Nil
  show ?case by (simp add: read_stream_def)
next
  case (Cons c chunks)
  show ?case
  proof (cases c)
    case None
    with Cons [of acc x] show ?thesis
      by (simp add: read_stream_def read_chunk_def)
  next
    case (Some t)
    show ?thesis
    proof (cases "t = []")
      case True
      with Some Cons [of acc x] show ?thesis
        by (simp add: read_stream_def read_chunk_def)
    next
      case False
      with Some Cons [of "acc @ t" "acc @ t"] show ?thesis
        by (simp add: read_stream_def read_chunk_def show_fragment_fills)
    qed
  qed
qed

lemma read_stream_placeholder:
  "read_stream chunks ([], ms @ [\<lparr>sender = Ai, msg_text = Spinner\<rparr>]) =
     (fragments_text chunks,
      ms @ [\<lparr>sender = Ai,
             msg_text = (if fragments_text chunks = [] then Spinner
                         else Text (fragments_text chunks))\<rparr>])"
proof (induction chunks)
  case Nil
  show ?case by (simp add: read_stream_def)
next
  case (Cons c chunks)
  show ?case
  proof (cases c)
    case None
    with Cons show ?thesis
      by (simp add: read_stream_def read_chunk_def)
  next
    case (Some t)
    show ?thesis
    proof (cases "t = []")
      case True
      with Some Cons show ?thesis
        by (simp add: read_stream_def read_chunk_def)
    next
      case False
      have "read_stream (c # chunks) ([], ms @ [\<lparr>sender = Ai, msg_text = Spinner\<rparr>]) =
            read_stream chunks (t, ms @ [\<lparr>sender = Ai, msg_text = Text t\<rparr>])"
        using Some False by (simp add: read_stream_def read_chunk_def show_fragment_fills)
      with False Some show ?thesis
        by (simp add: read_stream_filled)
    qed
  qed
qed

text \<open>
  Claim C9 says that for every finite sequence of fragments the placeholder is
  replaced by one assistant turn with the concatenation of the fragments. The loop
  skips a chunk without text (line 440), so after a stream without any text the
  last turn is still the placeholder.
\<close>

theorem silent_stream_leaves_placeholder:
  "chatMessages (receive_answer [] False (mounted sample_env True)) =
     chatMessages (mounted sample_env True) @ [\<lparr>sender = Ai, msg_text = Spinner\<rparr>] \<and>
   chatMessages (receive_answer [None, Some []] False (mounted sample_env True)) =
     chatMessages (mounted sample_env True) @ [\<lparr>sender = Ai, msg_text = Spinner\<rparr>] \<and>
   Text (fragments_text []) \<noteq> Spinner"
  by (simp add: receive_answer_def stream_opened_def read_stream_placeholder)

text \<open>
  Claim C9, amended: for every finite sequence of chunks with at least one
  fragment that is not empty, when no other update of the turns comes in between,
  the turns after the stream are the turns before it and one assistant turn whose
  text is the concatenation of the fragments, in the place of the placeholder.
\<close>

theorem stream_fills_one_turn:
  assumes "fragments_text chunks \<noteq> []"
  shows "chatMessages (receive_answer chunks False s) =
           chatMessages s @ [\<lparr>sender = Ai, msg_text = Text (fragments_text chunks)\<rparr>]"
  using assms by (simp add: receive_answer_def stream_opened_def read_stream_placeholder)

theorem stream_fills_one_turn_witness:
  "fragments_text [Some (js ''Hel''), Some (js ''lo''), Some (js ''!'')] = js ''Hello!'' \<and>
   js ''Hello!'' \<noteq> [] \<and>
   chatMessages (receive_answer [Some (js ''Hel''), Some (js ''lo''), Some (js ''!'')] False
                   (mounted sample_env True)) =
     chatMessages (mounted sample_env True) @ [\<lparr>sender = Ai, msg_text = Text (js ''Hello!'')\<rparr>]"
proof -
  have f: "fragments_text [Some (js ''Hel''), Some (js ''lo''), Some (js ''!'')] = js ''Hello!''"
    by (simp add: js_def)
  have n: "js ''Hello!'' \<noteq> []"
    by (simp add: js_def)
  from n have h: "fragments_text [Some (js ''Hel''), Some (js ''lo''), Some (js ''!'')] \<noteq> []"
    unfolding f .
  from stream_fills_one_turn [OF h, of "mounted sample_env True"] n
  show ?thesis unfolding f by blast
qed

section \<open>Reset (claim C10)\<close>

text \<open>
  Claim C10. In every reachable state \<open>resetAppState\<close> sets the mode \<open>none\<close>, the
  driver's status \<open>offline\<close>, the passenger's status and the offer \<open>null\<close>, both
  references \<open>null\<close> with no interval left scheduled, the destination and the two
  messages empty, and the pickup to the current location; it leaves the chat
  session, the chat turns, the vehicle type and the payment method as they were.
\<close>

theorem reset_frame:
  assumes "reachable e s"
  shows "userMode (resetAppState s) = Mode_none \<and>
   currentRideOffer (resetAppState s) = None \<and>
   driverStatus (resetAppState s) = Offline \<and>
   passengerRideStatus (resetAppState s) = None \<and>
   driverRequestIntervalRef (resetAppState s) = None \<and>
   rideTrackingIntervalRef (resetAppState s) = None \<and>
   intervals (resetAppState s) = [] \<and>
   destination (resetAppState s) = JStr [] \<and>
   apiResponse (resetAppState s) = Empty_text \<and>
   error (resetAppState s) = Empty_text \<and>
   chatRef (resetAppState s) = chatRef s \<and>
   chatMessages (resetAppState s) = chatMessages s \<and>
   vehicleType (resetAppState s) = vehicleType s \<and>
   paymentMethod (resetAppState s) = paymentMethod s \<and>
   pickupLocation (resetAppState s) = JStr (currentLocation s)"
proof -
  from assms have "timers_owned s" by (rule reachable_owned)
  then have "intervals (resetAppState s) = []"
    by (simp add: reset_clears_intervals timers_owned_iff)
  then show ?thesis
    by (simp add: resetAppState_def Let_def split: option.splits)
qed

theorem reset_frame_witness:
  "reachable sample_env sample_waiting \<and>
   intervals sample_waiting \<noteq> [] \<and>
   intervals (resetAppState sample_waiting) = [] \<and>
   userMode (resetAppState sample_waiting) = Mode_none \<and>
   driverStatus (resetAppState sample_waiting) = Offline \<and>
   pickupLocation (resetAppState sample_waiting) = JStr sample_location"
proof -
  have r: "reachable sample_env sample_waiting"
    unfolding sample_waiting_def sample_located_def
    by (intro reachable_run reachable_by.after_step reachable_by.at_start) simp_all
  have i: "intervals sample_waiting \<noteq> []"
    unfolding sample_waiting_def by code_simp
  have l: "currentLocation sample_waiting = sample_location"
    unfolding sample_waiting_def by code_simp
  from reset_frame [OF r] r i l show ?thesis by simp
qed

end
